theory Spec2Isabelle
  imports Main
begin

section \<open>The data model of \<open>src/main.py\<close>\<close>

text \<open>
  The service reads one table, \<open>kpop_idol_followers\<close>, declared by the class
  \<open>KpopIdol\<close>. A row is a record with one field per declared column. Every column
  but the primary key \<open>Stage_Name\<close> may hold NULL, which is \<open>None\<close> here.
  Python's integers are unbounded, so integer columns are \<open>int\<close>.
\<close>

record datetime =
  year :: int
  month :: nat
  day :: nat
  hour :: nat
  minute :: nat
  second :: nat

record KpopIdol =
  Stage_Name :: string
  Group :: "string option"
  ig_name :: "string option"
  Followers :: "int option"
  Gender_x :: "string option"
  Full_Name :: "string option"
  Korean_Name :: "string option"
  K_Stage_Name :: "string option"
  Date_of_Birth :: "datetime option"
  Debut :: "datetime option"
  Company :: "string option"
  Country :: "string option"
  Second_Country :: "string option"
  Height :: "string option"
  Weight :: "string option"
  Birthplace :: "string option"
  Other_Group :: "string option"
  Former_Group :: "string option"
  Gender_y :: "string option"
  age :: "int option"
  year_career :: "int option"

text \<open>
  The values a handler sees in a row or passes as a bound parameter. \<open>InstanceState\<close>
  is the ORM's bookkeeping object, stored in every loaded instance under the key
  \<open>_sa_instance_state\<close>.
\<close>

datatype pyval = PyNone | PyStr string | PyInt int | PyDatetime datetime | InstanceState

definition str_val :: "string option \<Rightarrow> pyval" where
  "str_val v = (case v of None \<Rightarrow> PyNone | Some s \<Rightarrow> PyStr s)"

definition int_val :: "int option \<Rightarrow> pyval" where
  "int_val v = (case v of None \<Rightarrow> PyNone | Some i \<Rightarrow> PyInt i)"

definition datetime_val :: "datetime option \<Rightarrow> pyval" where
  "datetime_val v = (case v of None \<Rightarrow> PyNone | Some d \<Rightarrow> PyDatetime d)"

text \<open>A Python \<open>dict\<close> with string keys, in insertion order.\<close>

type_synonym pydict = "(string \<times> pyval) list"

text \<open>The columns of a row, in the order of their declaration in \<open>KpopIdol\<close>.\<close>

definition row_items :: "KpopIdol \<Rightarrow> pydict" where
  "row_items r =
    [(''Stage_Name'', PyStr (Stage_Name r)),
     (''Group'', str_val (Group r)),
     (''ig_name'', str_val (ig_name r)),
     (''Followers'', int_val (Followers r)),
     (''Gender_x'', str_val (Gender_x r)),
     (''Full_Name'', str_val (Full_Name r)),
     (''Korean_Name'', str_val (Korean_Name r)),
     (''K_Stage_Name'', str_val (K_Stage_Name r)),
     (''Date_of_Birth'', datetime_val (Date_of_Birth r)),
     (''Debut'', datetime_val (Debut r)),
     (''Company'', str_val (Company r)),
     (''Country'', str_val (Country r)),
     (''Second_Country'', str_val (Second_Country r)),
     (''Height'', str_val (Height r)),
     (''Weight'', str_val (Weight r)),
     (''Birthplace'', str_val (Birthplace r)),
     (''Other_Group'', str_val (Other_Group r)),
     (''Former_Group'', str_val (Former_Group r)),
     (''Gender_y'', str_val (Gender_y r)),
     (''age'', int_val (age r)),
     (''year_career'', int_val (year_career r))]"

text \<open>\<open>KpopIdol.__table__.columns\<close>: the keys of the declared columns.\<close>

definition columns :: "string list" where
  "columns =
    [''Stage_Name'', ''Group'', ''ig_name'', ''Followers'', ''Gender_x'', ''Full_Name'',
     ''Korean_Name'', ''K_Stage_Name'', ''Date_of_Birth'', ''Debut'', ''Company'',
     ''Country'', ''Second_Country'', ''Height'', ''Weight'', ''Birthplace'',
     ''Other_Group'', ''Former_Group'', ''Gender_y'', ''age'', ''year_career'']"

section \<open>Failures, statements, the session\<close>

text \<open>
  A handler either returns a list of mappings, which the framework answers with status
  200, or raises. \<open>HTTPException\<close> carries the status code and the detail of the
  source's \<open>raise\<close>; \<open>DatabaseError\<close> is an exception of the database layer,
  which no handler catches.
\<close>

datatype failure = HTTPException nat string | DatabaseError

type_synonym response = "failure + pydict list"

definition status :: "response \<Rightarrow> nat" where
  "status resp =
    (case resp of Inr _ \<Rightarrow> 200 | Inl (HTTPException code _) \<Rightarrow> code | Inl DatabaseError \<Rightarrow> 500)"

text \<open>
  What a handler sends to the database: a query of the ORM over the whole table or
  with one equality filter on a column, or a textual statement with its bound
  parameters.
\<close>

datatype statement =
  Query_All
  | Query_Filter_Eq string string
  | Text_Statement string pydict

text \<open>
  The session of one request: the table it reads and the statements it has executed,
  oldest first. No handler changes the table.
\<close>

record session =
  table :: "KpopIdol list"
  executed :: "statement list"

definition record_statement :: "statement \<Rightarrow> session \<Rightarrow> session" where
  "record_statement st db = db\<lparr>executed := executed db @ [st]\<rparr>"

section \<open>The three ORM handlers\<close>

text \<open>
  \<open>idol.__dict__\<close> of an instance loaded by a query: the ORM's state object and one
  entry per column, NULL as \<open>None\<close>.
\<close>

definition instance_dict :: "KpopIdol \<Rightarrow> pydict" where
  "instance_dict r = (''_sa_instance_state'', InstanceState) # row_items r"

text \<open>\<open>k.startswith('_')\<close>\<close>

definition startswith_underscore :: "string \<Rightarrow> bool" where
  "startswith_underscore k = (case k of [] \<Rightarrow> False | c # _ \<Rightarrow> c = CHR ''_'')"

text \<open>\<open>{k: v for k, v in idol.__dict__.items() if not k.startswith('_')}\<close>\<close>

definition to_dict :: "KpopIdol \<Rightarrow> pydict" where
  "to_dict r = filter (\<lambda>(k, v). \<not> startswith_underscore k) (instance_dict r)"

text \<open>
  The instances that a query of the one entity \<open>KpopIdol\<close> gives for the rows that the
  database returns. The session keeps one instance for each primary key, here the stage
  name: the first row with a stage name makes the instance and fills it, a later row
  with the same stage name finds that instance and changes nothing in it. \<open>all()\<close> gives
  each instance once, in the order in which the instances first appear. \<open>seen\<close> holds
  the stage names that have an instance already.
\<close>

primrec unique_instances_from :: "string list \<Rightarrow> KpopIdol list \<Rightarrow> KpopIdol list" where
  "unique_instances_from seen [] = []"
| "unique_instances_from seen (r # rs) =
    (if Stage_Name r \<in> set seen then unique_instances_from seen rs
     else r # unique_instances_from (Stage_Name r # seen) rs)"

text \<open>Every request has a session of its own, which has no instance yet.\<close>

definition unique_instances :: "KpopIdol list \<Rightarrow> KpopIdol list" where
  "unique_instances rs = unique_instances_from [] rs"

text \<open>\<open>db.query(KpopIdol).all()\<close>\<close>

definition query_all :: "session \<Rightarrow> KpopIdol list \<times> session" where
  "query_all db = (unique_instances (table db), record_statement Query_All db)"

text \<open>
  \<open>db.query(KpopIdol).filter(KpopIdol.<column> == v).all()\<close> on a string column: SQL's
  \<open>=\<close> is never true of NULL. Strings are compared as they are (a binary collation).
\<close>

definition query_filter_eq ::
  "string \<Rightarrow> (KpopIdol \<Rightarrow> string option) \<Rightarrow> string \<Rightarrow> session \<Rightarrow> KpopIdol list \<times> session" where
  "query_filter_eq name col v db =
    (unique_instances (filter (\<lambda>r. col r = Some v) (table db)),
     record_statement (Query_Filter_Eq name v) db)"

definition get_all_idols :: "session \<Rightarrow> response \<times> session" where
  "get_all_idols db =
    (let (idols, db') = query_all db
     in (Inr (map to_dict idols), db'))"

definition get_idol_by_stage_name :: "string \<Rightarrow> session \<Rightarrow> response \<times> session" where
  "get_idol_by_stage_name stage_name db =
    (let (idol, db') = query_filter_eq ''Stage_Name'' (\<lambda>r. Some (Stage_Name r)) stage_name db
     in if idol = [] then (Inl (HTTPException 404 ''Idol not found.''), db')
        else (Inr (map to_dict idol), db'))"

definition get_idols_by_group :: "string \<Rightarrow> session \<Rightarrow> response \<times> session" where
  "get_idols_by_group group_name db =
    (let (idols, db') = query_filter_eq ''Group'' Group group_name db
     in if idols = [] then
          (Inl (HTTPException 404 ''Group not found or has no members in the dataset.''), db')
        else (Inr (map to_dict idols), db'))"

section \<open>The database's reading of a textual statement\<close>

text \<open>
  \<open>search_idols\<close> and \<open>filter_idols\<close> build the text of a statement and hand it to
  \<open>db.execute(text(...))\<close>. What they return is what the database makes of that
  text, so the model reads the text as the backend does: bound parameters are looked
  for in the raw text, the text is split into tokens, parsed, and evaluated on every
  row in SQL's three-valued logic. The grammar is the one the two handlers write in:
  \<open>SELECT * FROM kpop_idol_followers WHERE\<close> followed by predicates with \<open>LIKE\<close>,
  \<open>IS NULL\<close> and the comparisons equal, at least and at most, over columns,
  \<open>YEAR(column)\<close>, numbers, string literals and bound parameters, joined by \<open>AND\<close>,
  \<open>OR\<close> and parentheses. A text outside this grammar is answered with
  \<open>DatabaseError\<close>, as a statement that the backend cannot parse is.
\<close>

subsection \<open>Characters\<close>

definition quote :: char where "quote = CHR 0x27"
definition backslash :: char where "backslash = CHR 0x5C"
definition backtick :: char where "backtick = CHR 0x60"

definition is_digit :: "char \<Rightarrow> bool" where
  "is_digit c = (c \<in> set ''0123456789'')"

definition is_letter :: "char \<Rightarrow> bool" where
  "is_letter c =
    (c \<in> set ''abcdefghijklmnopqrstuvwxyz'' \<or> c \<in> set ''ABCDEFGHIJKLMNOPQRSTUVWXYZ'')"

text \<open>
  A character of a name: a letter, a digit, the underscore, or a byte of a character
  beyond ASCII.
\<close>

definition is_word_char :: "char \<Rightarrow> bool" where
  "is_word_char c = (is_letter c \<or> is_digit c \<or> c = CHR ''_'' \<or> 128 \<le> (of_char c :: nat))"

definition is_space :: "char \<Rightarrow> bool" where
  "is_space c = (c = CHR '' '' \<or> c = CHR 0x09 \<or> c = CHR 0x0A \<or> c = CHR 0x0D)"

definition to_upper :: "char \<Rightarrow> char" where
  "to_upper c =
    (case map_of (zip ''abcdefghijklmnopqrstuvwxyz'' ''ABCDEFGHIJKLMNOPQRSTUVWXYZ'') c of
       None \<Rightarrow> c | Some u \<Rightarrow> u)"

subsection \<open>Bound parameters of \<open>text(...)\<close>\<close>

text \<open>
  \<open>text\<close> finds the names of bound parameters in the raw text, string literals
  included: a colon that does not follow a colon, a word character or a backslash,
  then the longest run of word characters that is not itself followed by a colon.
\<close>

definition bind_at :: "string \<Rightarrow> string option" where
  "bind_at cs =
    (let w = takeWhile is_word_char cs; rest = dropWhile is_word_char cs
     in if w = [] then None
        else if rest = [] then Some w
        else if hd rest \<noteq> CHR '':'' then Some w
        else if butlast w = [] then None
        else Some (butlast w))"

fun bind_scan :: "char option \<Rightarrow> string \<Rightarrow> string list" where
  "bind_scan prev [] = []"
| "bind_scan prev (c # cs) =
    (if c = CHR '':'' \<and>
        (case prev of None \<Rightarrow> True
         | Some p \<Rightarrow> \<not> (p = CHR '':'' \<or> is_word_char p \<or> p = backslash))
     then (case bind_at cs of None \<Rightarrow> [] | Some n \<Rightarrow> [n])
     else []) @ bind_scan (Some c) cs"

definition bind_names :: "string \<Rightarrow> string list" where
  "bind_names txt = bind_scan None txt"

subsection \<open>Tokens\<close>

datatype token =
  T_SELECT | T_FROM | T_WHERE | T_AND | T_OR | T_LIKE | T_IS | T_NULL | T_YEAR
  | T_Star | T_LParen | T_RParen | T_Eq | T_Ge | T_Le
  | T_Name string
  | T_Num nat
  | T_Str string
  | T_Bind string

text \<open>Keywords are recognised in any case; any other word is a name.\<close>

definition word_token :: "string \<Rightarrow> token" where
  "word_token w =
    (let u = map to_upper w
     in if u = ''SELECT'' then T_SELECT
        else if u = ''FROM'' then T_FROM
        else if u = ''WHERE'' then T_WHERE
        else if u = ''AND'' then T_AND
        else if u = ''OR'' then T_OR
        else if u = ''LIKE'' then T_LIKE
        else if u = ''IS'' then T_IS
        else if u = ''NULL'' then T_NULL
        else if u = ''YEAR'' then T_YEAR
        else T_Name w)"

text \<open>
  The tokenizer reads one character at a time. Its mode says what it is in the middle
  of: nothing, a word, a number, a string literal (also just after a backslash, or
  just after a quote, which either ends the literal or is the first of a doubled
  quote), a name in backticks, the name of a bound parameter, or a comparison that
  began with a greater-than or a less-than sign.
\<close>

datatype lex_mode =
  Idle
  | In_Word string
  | In_Num nat
  | In_Str string
  | In_Str_Escape string
  | In_Str_Quote string
  | In_Backtick string
  | In_Bind string
  | After_Gt
  | After_Lt

text \<open>
  A backslash in a string literal: the next character stands for itself, but for the
  letters that name a control character, and for the two wildcards of \<open>LIKE\<close>, which
  keep their backslash.
\<close>

definition unescape :: "char \<Rightarrow> string" where
  "unescape c =
    (if c = CHR ''n'' then [CHR 0x0A]
     else if c = CHR ''t'' then [CHR 0x09]
     else if c = CHR ''r'' then [CHR 0x0D]
     else if c = CHR ''b'' then [CHR 0x08]
     else if c = CHR ''0'' then [CHR 0x00]
     else if c = CHR ''Z'' then [CHR 0x1A]
     else if c = CHR ''%'' \<or> c = CHR ''_'' then [backslash, c]
     else [c])"

text \<open>A character met in mode \<open>Idle\<close>: the tokens it completes and the next mode.\<close>

definition idle_step :: "char \<Rightarrow> (token list \<times> lex_mode) option" where
  "idle_step c =
    (if is_space c then Some ([], Idle)
     else if c = CHR ''*'' then Some ([T_Star], Idle)
     else if c = CHR ''('' then Some ([T_LParen], Idle)
     else if c = CHR '')'' then Some ([T_RParen], Idle)
     else if c = CHR ''='' then Some ([T_Eq], Idle)
     else if c = CHR ''>'' then Some ([], After_Gt)
     else if c = CHR ''<'' then Some ([], After_Lt)
     else if c = quote then Some ([], In_Str [])
     else if c = backtick then Some ([], In_Backtick [])
     else if c = CHR '':'' then Some ([], In_Bind [])
     else if is_digit c then Some ([], In_Num (of_char c - 48))
     else if is_word_char c then Some ([], In_Word [c])
     else None)"

text \<open>A token is complete and the character after it is read in mode \<open>Idle\<close>.\<close>

definition emit_then :: "token \<Rightarrow> char \<Rightarrow> (token list \<times> lex_mode) option" where
  "emit_then t c = (case idle_step c of None \<Rightarrow> None | Some (ts, m) \<Rightarrow> Some (t # ts, m))"

fun lex_step :: "lex_mode \<Rightarrow> char \<Rightarrow> (token list \<times> lex_mode) option" where
  "lex_step Idle c = idle_step c"
| "lex_step (In_Word w) c =
    (if is_word_char c then Some ([], In_Word (w @ [c])) else emit_then (word_token w) c)"
| "lex_step (In_Num n) c =
    (if is_digit c then Some ([], In_Num (10 * n + (of_char c - 48)))
     else if is_word_char c then None
     else emit_then (T_Num n) c)"
| "lex_step (In_Str s) c =
    (if c = quote then Some ([], In_Str_Quote s)
     else if c = backslash then Some ([], In_Str_Escape s)
     else Some ([], In_Str (s @ [c])))"
| "lex_step (In_Str_Escape s) c = Some ([], In_Str (s @ unescape c))"
| "lex_step (In_Str_Quote s) c =
    (if c = quote then Some ([], In_Str (s @ [quote])) else emit_then (T_Str s) c)"
| "lex_step (In_Backtick w) c =
    (if c = backtick then (if w = [] then None else Some ([T_Name w], Idle))
     else Some ([], In_Backtick (w @ [c])))"
| "lex_step (In_Bind w) c =
    (if is_word_char c then Some ([], In_Bind (w @ [c]))
     else if w = [] then None
     else emit_then (T_Bind w) c)"
| "lex_step After_Gt c = (if c = CHR ''='' then Some ([T_Ge], Idle) else None)"
| "lex_step After_Lt c = (if c = CHR ''='' then Some ([T_Le], Idle) else None)"

text \<open>The end of the text: a literal or a quoted name left open is an error.\<close>

fun lex_end :: "lex_mode \<Rightarrow> token list option" where
  "lex_end Idle = Some []"
| "lex_end (In_Word w) = Some [word_token w]"
| "lex_end (In_Num n) = Some [T_Num n]"
| "lex_end (In_Str_Quote s) = Some [T_Str s]"
| "lex_end (In_Bind w) = (if w = [] then None else Some [T_Bind w])"
| "lex_end _ = None"

fun lex_from :: "lex_mode \<Rightarrow> string \<Rightarrow> token list option" where
  "lex_from m [] = lex_end m"
| "lex_from m (c # cs) =
    (case lex_step m c of
       None \<Rightarrow> None
     | Some (ts, m') \<Rightarrow> (case lex_from m' cs of None \<Rightarrow> None | Some ts' \<Rightarrow> Some (ts @ ts')))"

definition tokenize :: "string \<Rightarrow> token list option" where
  "tokenize txt = lex_from Idle txt"

subsection \<open>The \<open>WHERE\<close> clause\<close>

datatype operand =
  O_Col string
  | O_Year string
  | O_Num int
  | O_Str string
  | O_Bind string

datatype comparison = Cmp_Eq | Cmp_Ge | Cmp_Le

datatype cond =
  C_Like operand operand
  | C_Is_Null operand
  | C_Cmp comparison operand operand
  | C_And cond cond
  | C_Or cond cond

definition parse_operand :: "token list \<Rightarrow> (operand \<times> token list) option" where
  "parse_operand ts =
    (case ts of
       T_Name c # ts' \<Rightarrow> Some (O_Col c, ts')
     | T_YEAR # T_LParen # T_Name c # T_RParen # ts' \<Rightarrow> Some (O_Year c, ts')
     | T_Num n # ts' \<Rightarrow> Some (O_Num (int n), ts')
     | T_Str s # ts' \<Rightarrow> Some (O_Str s, ts')
     | T_Bind b # ts' \<Rightarrow> Some (O_Bind b, ts')
     | _ \<Rightarrow> None)"

definition parse_second :: "(operand \<Rightarrow> cond) \<Rightarrow> token list \<Rightarrow> (cond \<times> token list) option" where
  "parse_second mk ts =
    (case parse_operand ts of None \<Rightarrow> None | Some (b, ts') \<Rightarrow> Some (mk b, ts'))"

definition parse_pred :: "token list \<Rightarrow> (cond \<times> token list) option" where
  "parse_pred ts =
    (case parse_operand ts of
       None \<Rightarrow> None
     | Some (a, ts1) \<Rightarrow>
        (case ts1 of
           T_LIKE # ts2 \<Rightarrow> parse_second (C_Like a) ts2
         | T_IS # T_NULL # ts2 \<Rightarrow> Some (C_Is_Null a, ts2)
         | T_Eq # ts2 \<Rightarrow> parse_second (C_Cmp Cmp_Eq a) ts2
         | T_Ge # ts2 \<Rightarrow> parse_second (C_Cmp Cmp_Ge a) ts2
         | T_Le # ts2 \<Rightarrow> parse_second (C_Cmp Cmp_Le a) ts2
         | _ \<Rightarrow> None))"

text \<open>
  Recursive descent: \<open>OR\<close> binds weaker than \<open>AND\<close>, both associate to the left, and
  a parenthesis opens a nested condition. The first argument bounds the number of
  calls; each call uses one unit and \<open>None\<close> is the answer of a call that has none.
\<close>

fun parse_or :: "nat \<Rightarrow> token list \<Rightarrow> (cond \<times> token list) option"
  and parse_or_rest :: "nat \<Rightarrow> cond \<Rightarrow> token list \<Rightarrow> (cond \<times> token list) option"
  and parse_and :: "nat \<Rightarrow> token list \<Rightarrow> (cond \<times> token list) option"
  and parse_and_rest :: "nat \<Rightarrow> cond \<Rightarrow> token list \<Rightarrow> (cond \<times> token list) option"
  and parse_factor :: "nat \<Rightarrow> token list \<Rightarrow> (cond \<times> token list) option"
where
  "parse_or 0 ts = None"
| "parse_or (Suc n) ts =
    (case parse_and n ts of None \<Rightarrow> None | Some (c, ts') \<Rightarrow> parse_or_rest n c ts')"
| "parse_or_rest 0 c ts = None"
| "parse_or_rest (Suc n) c ts =
    (case ts of
       T_OR # ts' \<Rightarrow>
         (case parse_and n ts' of
            None \<Rightarrow> None
          | Some (d, ts'') \<Rightarrow> parse_or_rest n (C_Or c d) ts'')
     | _ \<Rightarrow> Some (c, ts))"
| "parse_and 0 ts = None"
| "parse_and (Suc n) ts =
    (case parse_factor n ts of None \<Rightarrow> None | Some (c, ts') \<Rightarrow> parse_and_rest n c ts')"
| "parse_and_rest 0 c ts = None"
| "parse_and_rest (Suc n) c ts =
    (case ts of
       T_AND # ts' \<Rightarrow>
         (case parse_factor n ts' of
            None \<Rightarrow> None
          | Some (d, ts'') \<Rightarrow> parse_and_rest n (C_And c d) ts'')
     | _ \<Rightarrow> Some (c, ts))"
| "parse_factor 0 ts = None"
| "parse_factor (Suc n) ts =
    (case ts of
       T_LParen # ts' \<Rightarrow>
         (case parse_or n ts' of
            Some (c, T_RParen # ts'') \<Rightarrow> Some (c, ts'')
          | _ \<Rightarrow> None)
     | _ \<Rightarrow> parse_pred ts)"

text \<open>
  Three units for every token and three more are enough for the chain of calls from
  \<open>parse_or\<close> down to \<open>parse_factor\<close> at every token.
\<close>

definition parse_fuel :: "token list \<Rightarrow> nat" where
  "parse_fuel ts = Suc (Suc (Suc (length ts + length ts + length ts)))"

definition parse_statement :: "token list \<Rightarrow> cond option" where
  "parse_statement ts =
    (case ts of
       T_SELECT # T_Star # T_FROM # T_Name t # T_WHERE # ts' \<Rightarrow>
         (if t = ''kpop_idol_followers'' then
            (case parse_or (parse_fuel ts') ts' of Some (c, []) \<Rightarrow> Some c | _ \<Rightarrow> None)
          else None)
     | _ \<Rightarrow> None)"

definition parse_sql :: "string \<Rightarrow> cond option" where
  "parse_sql txt = (case tokenize txt of None \<Rightarrow> None | Some ts \<Rightarrow> parse_statement ts)"

subsection \<open>Pattern matching with \<open>LIKE\<close>\<close>

text \<open>
  In a pattern the percent sign stands for any run of characters, the underscore for
  any one character, and a backslash makes the character after it stand for itself.
  Characters are compared as they are: the collation is a binary one.
\<close>

fun like_match :: "string \<Rightarrow> string \<Rightarrow> bool" where
  "like_match [] s = (s = [])"
| "like_match (p # ps) [] = (p = CHR ''%'' \<and> like_match ps [])"
| "like_match (p # ps) (c # cs) =
    (if p = CHR ''%'' then like_match ps (c # cs) \<or> like_match (p # ps) cs
     else if p = CHR ''_'' then like_match ps cs
     else if p = backslash then
       (case ps of [] \<Rightarrow> c = backslash \<and> cs = [] | q # qs \<Rightarrow> c = q \<and> like_match qs cs)
     else c = p \<and> like_match ps cs)"

subsection \<open>Values as text\<close>

text \<open>
  \<open>LIKE\<close> on a column that is not a string compares the text of the value: an
  integer in decimal, a date and time as \<open>YYYY-MM-DD HH:MM:SS\<close>.
\<close>

fun digits :: "nat \<Rightarrow> string" where
  "digits n =
    (if n < 10 then [char_of (48 + n)] else digits (n div 10) @ [char_of (48 + n mod 10)])"

declare digits.simps [simp del]

definition show_int :: "int \<Rightarrow> string" where
  "show_int i = (if i < 0 then CHR ''-'' # digits (nat (- i)) else digits (nat i))"

definition pad :: "nat \<Rightarrow> nat \<Rightarrow> string" where
  "pad w n = replicate (w - length (digits n)) CHR ''0'' @ digits n"

definition show_datetime :: "datetime \<Rightarrow> string" where
  "show_datetime d =
    pad 4 (nat (year d)) @ ''-'' @ pad 2 (month d) @ ''-'' @ pad 2 (day d) @ '' '' @
    pad 2 (hour d) @ '':'' @ pad 2 (minute d) @ '':'' @ pad 2 (second d)"

definition as_text :: "pyval \<Rightarrow> string option" where
  "as_text v =
    (case v of
       PyStr s \<Rightarrow> Some s
     | PyInt i \<Rightarrow> Some (show_int i)
     | PyDatetime d \<Rightarrow> Some (show_datetime d)
     | _ \<Rightarrow> None)"

subsection \<open>Checking and evaluating a condition\<close>

datatype sqltype = TString | TInteger | TDateTime

text \<open>The types of the columns, as \<open>KpopIdol\<close> declares them.\<close>

definition column_types :: "(string \<times> sqltype) list" where
  "column_types =
    [(''Stage_Name'', TString), (''Group'', TString), (''ig_name'', TString),
     (''Followers'', TInteger), (''Gender_x'', TString), (''Full_Name'', TString),
     (''Korean_Name'', TString), (''K_Stage_Name'', TString),
     (''Date_of_Birth'', TDateTime), (''Debut'', TDateTime), (''Company'', TString),
     (''Country'', TString), (''Second_Country'', TString), (''Height'', TString),
     (''Weight'', TString), (''Birthplace'', TString), (''Other_Group'', TString),
     (''Former_Group'', TString), (''Gender_y'', TString), (''age'', TInteger),
     (''year_career'', TInteger)]"

definition operand_type :: "pydict \<Rightarrow> operand \<Rightarrow> sqltype option" where
  "operand_type params a =
    (case a of
       O_Col c \<Rightarrow> map_of column_types c
     | O_Year c \<Rightarrow> (if map_of column_types c = Some TDateTime then Some TInteger else None)
     | O_Num n \<Rightarrow> Some TInteger
     | O_Str s \<Rightarrow> Some TString
     | O_Bind b \<Rightarrow>
        (case map_of params b of
           Some (PyStr s) \<Rightarrow> Some TString
         | Some (PyInt i) \<Rightarrow> Some TInteger
         | Some (PyDatetime d) \<Rightarrow> Some TDateTime
         | _ \<Rightarrow> None))"

text \<open>
  A condition is accepted when its columns exist, its bound parameters have values,
  the pattern of every \<open>LIKE\<close> is a string and every comparison is between integers.
\<close>

fun check_cond :: "pydict \<Rightarrow> cond \<Rightarrow> bool" where
  "check_cond params (C_Like a b) =
    (operand_type params a \<noteq> None \<and> operand_type params b = Some TString)"
| "check_cond params (C_Is_Null a) = (operand_type params a \<noteq> None)"
| "check_cond params (C_Cmp f a b) =
    (operand_type params a = Some TInteger \<and> operand_type params b = Some TInteger)"
| "check_cond params (C_And c d) = (check_cond params c \<and> check_cond params d)"
| "check_cond params (C_Or c d) = (check_cond params c \<and> check_cond params d)"

definition dict_get :: "pydict \<Rightarrow> string \<Rightarrow> pyval" where
  "dict_get d k = (case map_of d k of None \<Rightarrow> PyNone | Some v \<Rightarrow> v)"

definition eval_operand :: "pydict \<Rightarrow> KpopIdol \<Rightarrow> operand \<Rightarrow> pyval" where
  "eval_operand params r a =
    (case a of
       O_Col c \<Rightarrow> dict_get (row_items r) c
     | O_Year c \<Rightarrow> (case dict_get (row_items r) c of PyDatetime d \<Rightarrow> PyInt (year d) | _ \<Rightarrow> PyNone)
     | O_Num n \<Rightarrow> PyInt n
     | O_Str s \<Rightarrow> PyStr s
     | O_Bind b \<Rightarrow> dict_get params b)"

definition compare_int :: "comparison \<Rightarrow> int \<Rightarrow> int \<Rightarrow> bool" where
  "compare_int f x y = (case f of Cmp_Eq \<Rightarrow> x = y | Cmp_Ge \<Rightarrow> x \<ge> y | Cmp_Le \<Rightarrow> x \<le> y)"

text \<open>The three truth values of SQL: \<open>None\<close> is unknown.\<close>

definition and3 :: "bool option \<Rightarrow> bool option \<Rightarrow> bool option" where
  "and3 x y =
    (if x = Some False \<or> y = Some False then Some False
     else if x = Some True \<and> y = Some True then Some True
     else None)"

definition or3 :: "bool option \<Rightarrow> bool option \<Rightarrow> bool option" where
  "or3 x y =
    (if x = Some True \<or> y = Some True then Some True
     else if x = Some False \<and> y = Some False then Some False
     else None)"

fun eval_cond :: "pydict \<Rightarrow> KpopIdol \<Rightarrow> cond \<Rightarrow> bool option" where
  "eval_cond params r (C_Like a b) =
    (case (as_text (eval_operand params r a), eval_operand params r b) of
       (Some s, PyStr p) \<Rightarrow> Some (like_match p s)
     | _ \<Rightarrow> None)"
| "eval_cond params r (C_Is_Null a) = Some (eval_operand params r a = PyNone)"
| "eval_cond params r (C_Cmp f a b) =
    (case (eval_operand params r a, eval_operand params r b) of
       (PyInt x, PyInt y) \<Rightarrow> Some (compare_int f x y)
     | _ \<Rightarrow> None)"
| "eval_cond params r (C_And c d) = and3 (eval_cond params r c) (eval_cond params r d)"
| "eval_cond params r (C_Or c d) = or3 (eval_cond params r c) (eval_cond params r d)"

text \<open>
  \<open>db.execute(text(query_str), params).mappings().all()\<close>: an error when a bound
  parameter of the text has no value or the text is not a statement of the grammar,
  else the rows on which the condition is true, each as a mapping from the columns
  to its values.
\<close>

definition db_execute :: "string \<Rightarrow> pydict \<Rightarrow> session \<Rightarrow> (failure + pydict list) \<times> session" where
  "db_execute query_str params db =
    (let db' = record_statement (Text_Statement query_str params) db
     in if \<not> list_all (\<lambda>n. n \<in> set (map fst params)) (bind_names query_str) then
          (Inl DatabaseError, db')
        else
          (case parse_sql query_str of
             None \<Rightarrow> (Inl DatabaseError, db')
           | Some c \<Rightarrow>
              if check_cond params c then
                (Inr (map row_items (filter (\<lambda>r. eval_cond params r c = Some True) (table db))),
                 db')
              else (Inl DatabaseError, db')))"

section \<open>The two handlers that write their statement as text\<close>

text \<open>
  Python's truth of an optional argument: \<open>None\<close>, the empty string and the number
  zero are false.
\<close>

definition truthy_str :: "string option \<Rightarrow> bool" where
  "truthy_str v = (case v of None \<Rightarrow> False | Some s \<Rightarrow> s \<noteq> [])"

definition truthy_int :: "int option \<Rightarrow> bool" where
  "truthy_int v = (case v of None \<Rightarrow> False | Some i \<Rightarrow> i \<noteq> 0)"

text \<open>\<open>d[k] = v\<close>\<close>

fun setitem :: "pydict \<Rightarrow> string \<Rightarrow> pyval \<Rightarrow> pydict" where
  "setitem [] k v = [(k, v)]"
| "setitem ((k', v') # d) k v = (if k' = k then (k, v) # d else (k', v') # setitem d k v)"

text \<open>
  \<open>search_idols\<close>: the two checks, then the statement, written with the field and
  the value inside its text and executed with no bound parameter.
\<close>

definition search_idols :: "string option \<Rightarrow> string option \<Rightarrow> session \<Rightarrow> response \<times> session" where
  "search_idols field value db =
    (if \<not> truthy_str field \<or> \<not> truthy_str value then
       (Inl (HTTPException 400 ''Both 'field' and 'value' are required.''), db)
     else
       (let f = the field; v = the value
        in if f \<notin> set columns then
             (Inl (HTTPException 400 (''Field '' @ quote # f @ quote # '' not found in the data.'')),
              db)
           else
             (let query_str =
                    ''SELECT * FROM kpop_idol_followers WHERE `'' @ f @ ''` LIKE '%'' @ v @
                    ''%'' @ [quote];
                  query_str =
                    (if f \<in> set [''Height'', ''Weight''] then
                       ''SELECT * FROM kpop_idol_followers WHERE `'' @ f @ ''` LIKE '%'' @ v @
                       ''%' OR `'' @ f @ ''` IS NULL''
                     else query_str);
                  (result, db') = db_execute query_str [] db
              in case result of
                   Inl e \<Rightarrow> (Inl e, db')
                 | Inr rows \<Rightarrow>
                     if rows = [] then
                       (Inl (HTTPException 404 ''No idols found matching the search criteria.''),
                        db')
                     else (Inr rows, db'))))"

text \<open>
  \<open>filter_idols\<close>, up to the call of \<open>db.execute\<close>: the text of the statement and the
  dictionary of its bound parameters, each grown by one criterion after the other.
\<close>

definition filter_query ::
  "string option \<Rightarrow> string option \<Rightarrow> string option \<Rightarrow> int option \<Rightarrow> int option \<Rightarrow> int option
     \<Rightarrow> string \<times> pydict" where
  "filter_query gender country company debut_year age_from age_to =
    (let query_str = ''SELECT * FROM kpop_idol_followers WHERE 1=1'';
         params = [];
         (query_str, params) =
           (if truthy_str gender then
              (query_str @ '' AND `Gender_x` LIKE :gender'',
               setitem params ''gender'' (PyStr (''%'' @ the gender @ ''%'')))
            else (query_str, params));
         (query_str, params) =
           (if truthy_str country then
              (query_str @ '' AND `Country` LIKE :country'',
               setitem params ''country'' (PyStr (''%'' @ the country @ ''%'')))
            else (query_str, params));
         (query_str, params) =
           (if truthy_str company then
              (query_str @ '' AND `Company` LIKE :company'',
               setitem params ''company'' (PyStr (''%'' @ the company @ ''%'')))
            else (query_str, params));
         (query_str, params) =
           (if truthy_int debut_year then
              (query_str @ '' AND YEAR(`Debut`) = :debut_year'',
               setitem params ''debut_year'' (PyInt (the debut_year)))
            else (query_str, params));
         (query_str, params) =
           (if truthy_int age_from then
              (query_str @ '' AND `age` >= :age_from'',
               setitem params ''age_from'' (PyInt (the age_from)))
            else (query_str, params));
         (query_str, params) =
           (if truthy_int age_to then
              (query_str @ '' AND `age` <= :age_to'',
               setitem params ''age_to'' (PyInt (the age_to)))
            else (query_str, params));
         query_str =
           (if list_ex (\<lambda>field. field \<in> set [''Height'', ''Weight'']) (map fst params) then
              query_str @ '' OR (`Height` IS NULL OR `Weight` IS NULL)''
            else query_str)
     in (query_str, params))"

definition filter_idols ::
  "string option \<Rightarrow> string option \<Rightarrow> string option \<Rightarrow> int option \<Rightarrow> int option \<Rightarrow> int option
     \<Rightarrow> session \<Rightarrow> response \<times> session" where
  "filter_idols gender country company debut_year age_from age_to db =
    (let (query_str, params) = filter_query gender country company debut_year age_from age_to;
         (result, db') = db_execute query_str params db
     in case result of
          Inl e \<Rightarrow> (Inl e, db')
        | Inr rows \<Rightarrow>
            if rows = [] then
              (Inl (HTTPException 404 ''No idols found matching the filter criteria.''), db')
            else (Inr rows, db'))"

section \<open>Notions the properties are stated with\<close>

subsection \<open>The statement of \<open>filter_idols\<close>, by the criteria it holds\<close>

text \<open>
  The text, the bound parameters and the condition of the statement that
  \<open>filter_idols\<close> writes, when it is told which of its six criteria count. The
  lemmas below show that \<open>filter_query\<close> writes this text with these parameters, and
  that the database reads this condition from the text.
\<close>

definition filter_text :: "bool \<Rightarrow> bool \<Rightarrow> bool \<Rightarrow> bool \<Rightarrow> bool \<Rightarrow> bool \<Rightarrow> string" where
  "filter_text g c co d af at =
    ''SELECT * FROM kpop_idol_followers WHERE 1=1'' @
    (if g then '' AND `Gender_x` LIKE :gender'' else []) @
    (if c then '' AND `Country` LIKE :country'' else []) @
    (if co then '' AND `Company` LIKE :company'' else []) @
    (if d then '' AND YEAR(`Debut`) = :debut_year'' else []) @
    (if af then '' AND `age` >= :age_from'' else []) @
    (if at then '' AND `age` <= :age_to'' else [])"

definition filter_names :: "bool \<Rightarrow> bool \<Rightarrow> bool \<Rightarrow> bool \<Rightarrow> bool \<Rightarrow> bool \<Rightarrow> string list" where
  "filter_names g c co d af at =
    (if g then [''gender''] else []) @
    (if c then [''country''] else []) @
    (if co then [''company''] else []) @
    (if d then [''debut_year''] else []) @
    (if af then [''age_from''] else []) @
    (if at then [''age_to''] else [])"

definition filter_params ::
  "string option \<Rightarrow> string option \<Rightarrow> string option \<Rightarrow> int option \<Rightarrow> int option \<Rightarrow> int option
     \<Rightarrow> pydict" where
  "filter_params gender country company debut_year age_from age_to =
    (if truthy_str gender then [(''gender'', PyStr (''%'' @ the gender @ ''%''))] else []) @
    (if truthy_str country then [(''country'', PyStr (''%'' @ the country @ ''%''))] else []) @
    (if truthy_str company then [(''company'', PyStr (''%'' @ the company @ ''%''))] else []) @
    (if truthy_int debut_year then [(''debut_year'', PyInt (the debut_year))] else []) @
    (if truthy_int age_from then [(''age_from'', PyInt (the age_from))] else []) @
    (if truthy_int age_to then [(''age_to'', PyInt (the age_to))] else [])"

definition filter_clauses :: "bool \<Rightarrow> bool \<Rightarrow> bool \<Rightarrow> bool \<Rightarrow> bool \<Rightarrow> bool \<Rightarrow> cond list" where
  "filter_clauses g c co d af at =
    (if g then [C_Like (O_Col ''Gender_x'') (O_Bind ''gender'')] else []) @
    (if c then [C_Like (O_Col ''Country'') (O_Bind ''country'')] else []) @
    (if co then [C_Like (O_Col ''Company'') (O_Bind ''company'')] else []) @
    (if d then [C_Cmp Cmp_Eq (O_Year ''Debut'') (O_Bind ''debut_year'')] else []) @
    (if af then [C_Cmp Cmp_Ge (O_Col ''age'') (O_Bind ''age_from'')] else []) @
    (if at then [C_Cmp Cmp_Le (O_Col ''age'') (O_Bind ''age_to'')] else [])"

definition filter_cond :: "bool \<Rightarrow> bool \<Rightarrow> bool \<Rightarrow> bool \<Rightarrow> bool \<Rightarrow> bool \<Rightarrow> cond" where
  "filter_cond g c co d af at =
    foldl C_And (C_Cmp Cmp_Eq (O_Num 1) (O_Num 1)) (filter_clauses g c co d af at)"

subsection \<open>What a criterion asks of a row\<close>

text \<open>\<open>needle\<close> occurs in \<open>hay\<close> as a run of consecutive characters.\<close>

fun starts_with :: "string \<Rightarrow> string \<Rightarrow> bool" where
  "starts_with [] hay = True"
| "starts_with (n # ns) [] = False"
| "starts_with (n # ns) (h # hs) = (n = h \<and> starts_with ns hs)"

fun contains :: "string \<Rightarrow> string \<Rightarrow> bool" where
  "contains needle [] = (needle = [])"
| "contains needle (h # hs) = (starts_with needle (h # hs) \<or> contains needle hs)"

text \<open>A text with none of the characters that \<open>LIKE\<close> reads as more than themselves.\<close>

definition plain :: "string \<Rightarrow> bool" where
  "plain v = list_all (\<lambda>c. c \<noteq> CHR ''%'' \<and> c \<noteq> CHR ''_'' \<and> c \<noteq> backslash) v"

text \<open>The column is not NULL and matches the pattern made of the value.\<close>

definition column_like :: "string option \<Rightarrow> string \<Rightarrow> bool" where
  "column_like col v = (case col of None \<Rightarrow> False | Some s \<Rightarrow> like_match (''%'' @ v @ ''%'') s)"

definition debut_in :: "datetime option \<Rightarrow> int \<Rightarrow> bool" where
  "debut_in col y = (case col of None \<Rightarrow> False | Some d \<Rightarrow> year d = y)"

definition age_at_least :: "int option \<Rightarrow> int \<Rightarrow> bool" where
  "age_at_least col n = (case col of None \<Rightarrow> False | Some a \<Rightarrow> a \<ge> n)"

definition age_at_most :: "int option \<Rightarrow> int \<Rightarrow> bool" where
  "age_at_most col n = (case col of None \<Rightarrow> False | Some a \<Rightarrow> a \<le> n)"

text \<open>
  The row meets every criterion that counts: one given with a value that is neither
  empty nor zero.
\<close>

definition meets ::
  "string option \<Rightarrow> string option \<Rightarrow> string option \<Rightarrow> int option \<Rightarrow> int option \<Rightarrow> int option
     \<Rightarrow> KpopIdol \<Rightarrow> bool" where
  "meets gender country company debut_year age_from age_to r =
    ((if truthy_str gender then column_like (Gender_x r) (the gender) else True) \<and>
     (if truthy_str country then column_like (Country r) (the country) else True) \<and>
     (if truthy_str company then column_like (Company r) (the company) else True) \<and>
     (if truthy_int debut_year then debut_in (Debut r) (the debut_year) else True) \<and>
     (if truthy_int age_from then age_at_least (age r) (the age_from) else True) \<and>
     (if truthy_int age_to then age_at_most (age r) (the age_to) else True))"

subsection \<open>A table to try the handlers on\<close>

definition blank :: "string \<Rightarrow> KpopIdol" where
  "blank name =
    \<lparr>Stage_Name = name, Group = None, ig_name = None, Followers = None, Gender_x = None,
     Full_Name = None, Korean_Name = None, K_Stage_Name = None, Date_of_Birth = None,
     Debut = None, Company = None, Country = None, Second_Country = None, Height = None,
     Weight = None, Birthplace = None, Other_Group = None, Former_Group = None,
     Gender_y = None, age = None, year_career = None\<rparr>"

definition midnight :: "int \<Rightarrow> nat \<Rightarrow> nat \<Rightarrow> datetime" where
  "midnight y m d = \<lparr>year = y, month = m, day = d, hour = 0, minute = 0, second = 0\<rparr>"

definition ara :: KpopIdol where
  "ara = (blank ''Ara'')
    \<lparr>Group := Some ''Comet'', Gender_x := Some ''Girl'', Debut := Some (midnight 2016 8 8),
     Company := Some ''North'', Country := Some ''South Korea'', Height := Some ''162'',
     age := Some 24\<rparr>"

definition bora :: KpopIdol where
  "bora = (blank ''Bora'')
    \<lparr>Group := Some ''Comet'', Gender_x := Some ''Girl'', Debut := Some (midnight 2016 8 8),
     Company := Some ''North'', Country := Some ''Thailand'', age := Some 27\<rparr>"

definition chan :: KpopIdol where
  "chan = (blank ''Chan'')
    \<lparr>Group := Some ''Harbor'', Gender_x := Some ''Boy'', Debut := Some (midnight 2013 6 13),
     Company := Some ''West'', Weight := Some ''64'', age := Some 21\<rparr>"

definition example_db :: session where
  "example_db = \<lparr>table = [ara, bora, chan], executed = []\<rparr>"

definition empty_db :: session where
  "empty_db = \<lparr>table = [], executed = []\<rparr>"

subsection \<open>The statement of \<open>search_idols\<close>\<close>

text \<open>The text that \<open>search_idols\<close> writes for a field and a value that pass its checks.\<close>

definition search_text :: "string \<Rightarrow> string \<Rightarrow> string" where
  "search_text f v =
    (if f \<in> set [''Height'', ''Weight''] then
       ''SELECT * FROM kpop_idol_followers WHERE `'' @ f @ ''` LIKE '%'' @ v @ ''%' OR `'' @ f @
       ''` IS NULL''
     else
       ''SELECT * FROM kpop_idol_followers WHERE `'' @ f @ ''` LIKE '%'' @ v @ ''%'' @ [quote])"

subsection \<open>Reading a text piece by piece\<close>

text \<open>
  The tokenizer on a piece of a text that is not its end: the tokens completed and the
  mode at the end of the piece.
\<close>

fun lex_run :: "lex_mode \<Rightarrow> string \<Rightarrow> (token list \<times> lex_mode) option" where
  "lex_run m [] = Some ([], m)"
| "lex_run m (c # cs) =
    (case lex_step m c of
       None \<Rightarrow> None
     | Some (ts, m') \<Rightarrow>
        (case lex_run m' cs of None \<Rightarrow> None | Some (ts', m'') \<Rightarrow> Some (ts @ ts', m'')))"

text \<open>A text is at a break when it is empty or begins with a space.\<close>

definition at_break :: "string \<Rightarrow> bool" where
  "at_break txt = (case txt of [] \<Rightarrow> True | c # _ \<Rightarrow> c = CHR '' '')"

definition filter_tokens :: "bool \<Rightarrow> bool \<Rightarrow> bool \<Rightarrow> bool \<Rightarrow> bool \<Rightarrow> bool \<Rightarrow> token list" where
  "filter_tokens g c co d af at =
    [T_SELECT, T_Star, T_FROM, T_Name ''kpop_idol_followers'', T_WHERE, T_Num 1, T_Eq, T_Num 1] @
    (if g then [T_AND, T_Name ''Gender_x'', T_LIKE, T_Bind ''gender''] else []) @
    (if c then [T_AND, T_Name ''Country'', T_LIKE, T_Bind ''country''] else []) @
    (if co then [T_AND, T_Name ''Company'', T_LIKE, T_Bind ''company''] else []) @
    (if d then [T_AND, T_YEAR, T_LParen, T_Name ''Debut'', T_RParen, T_Eq, T_Bind ''debut_year'']
     else []) @
    (if af then [T_AND, T_Name ''age'', T_Ge, T_Bind ''age_from''] else []) @
    (if at then [T_AND, T_Name ''age'', T_Le, T_Bind ''age_to''] else [])"

section \<open>Properties of the three ORM handlers\<close>

text \<open>
  The comprehension drops the ORM's state object and nothing else: no declared column
  has a name that begins with an underscore.
\<close>

lemma to_dict_row_items: "to_dict r = row_items r"
  by (simp add: to_dict_def instance_dict_def row_items_def startswith_underscore_def)

lemma keys_row_items: "map fst (row_items r) = columns"
  by (simp add: row_items_def columns_def)

lemma row_items_Stage_Name: "map_of (row_items r) ''Stage_Name'' = Some (PyStr (Stage_Name r))"
  by (simp add: row_items_def)

lemma row_items_Group: "map_of (row_items r) ''Group'' = Some (str_val (Group r))"
  by (simp add: row_items_def)

lemma row_items_Height: "map_of (row_items r) ''Height'' = Some (str_val (Height r))"
  by (simp add: row_items_def)

lemma distinct_columns: "distinct columns"
  by (simp add: columns_def)

lemma row_items_has_column: "c \<in> set columns \<Longrightarrow> \<exists>v. map_of (row_items r) c = Some v"
proof -
  assume "c \<in> set columns"
  then have "c \<in> fst ` set (row_items r)"
    using keys_row_items [of r] by (metis set_map)
  then have "map_of (row_items r) c \<noteq> None"
    by (simp add: map_of_eq_None_iff)
  then show ?thesis by blast
qed

lemma filter_key_unique:
  "distinct (map f xs) \<Longrightarrow> x \<in> set xs \<Longrightarrow> filter (\<lambda>r. f r = f x) xs = [x]"
proof (induction xs)
  case Nil
  then show ?case by simp
next
  case (Cons y ys)
  show ?case
  proof (cases "y = x")
    case True
    with Cons.prems have "\<forall>r\<in>set ys. f r \<noteq> f x" by (auto simp: image_iff)
    then have "filter (\<lambda>r. f r = f x) ys = []" by (simp add: filter_empty_conv)
    with True show ?thesis by simp
  next
    case False
    with Cons.prems have "x \<in> set ys" "f y \<noteq> f x" by auto
    with Cons show ?thesis by simp
  qed
qed

text \<open>
  On rows that do not repeat a stage name every row makes an instance of its own; and
  whatever the rows are, the first of them makes one.
\<close>

lemma unique_instances_from_distinct:
  "distinct (map Stage_Name rs) \<Longrightarrow> set seen \<inter> Stage_Name ` set rs = {}
     \<Longrightarrow> unique_instances_from seen rs = rs"
proof (induction rs arbitrary: seen)
  case Nil
  then show ?case by simp
next
  case (Cons r rs)
  from Cons.prems have new: "Stage_Name r \<notin> set seen" by auto
  from Cons.prems have "distinct (map Stage_Name rs)"
    and "set (Stage_Name r # seen) \<inter> Stage_Name ` set rs = {}" by auto
  then have "unique_instances_from (Stage_Name r # seen) rs = rs" by (rule Cons.IH)
  with new show ?case by simp
qed

lemma unique_instances_distinct:
  "distinct (map Stage_Name rs) \<Longrightarrow> unique_instances rs = rs"
  by (simp add: unique_instances_def unique_instances_from_distinct)

lemma unique_instances_from_subset: "set (unique_instances_from seen rs) \<subseteq> set rs"
  by (induction rs arbitrary: seen) auto

lemma unique_instances_subset: "set (unique_instances rs) \<subseteq> set rs"
  by (simp add: unique_instances_def unique_instances_from_subset)

lemma unique_instances_Nil: "unique_instances rs = [] \<longleftrightarrow> rs = []"
  by (cases rs) (simp_all add: unique_instances_def)

lemma unique_instances_filter:
  "distinct (map Stage_Name rs) \<Longrightarrow> unique_instances (filter P rs) = filter P rs"
  by (simp add: unique_instances_distinct distinct_map_filter)

lemma example_table: "table example_db = [ara, bora, chan]"
  by (simp add: example_db_def)

lemma example_names:
  "Stage_Name ara = ''Ara''" "Stage_Name bora = ''Bora''" "Stage_Name chan = ''Chan''"
  by (simp_all add: ara_def bora_def chan_def blank_def)

lemma example_groups:
  "Group ara = Some ''Comet''" "Group bora = Some ''Comet''" "Group chan = Some ''Harbor''"
  by (simp_all add: ara_def bora_def chan_def blank_def)

text \<open>
  Claim C9. \<open>get_all_idols\<close> never raises: on every table it answers with status 200
  and the mappings of the instances that the query gives for the rows of the table
  (none for the empty table), and every mapping has every declared column as a key and
  no other key. On a table that respects the primary key, where no two rows share a
  stage name, that is one mapping for each row of the table, in the order of the table,
  and a column that is NULL in the row is in the mapping with the value \<open>None\<close>.
\<close>

theorem get_all_idols_total:
  "\<exists>rows. get_all_idols db = (Inr rows, record_statement Query_All db)
     \<and> status (Inr rows) = 200
     \<and> rows = map row_items (unique_instances (table db))
     \<and> (table db = [] \<longrightarrow> rows = [])
     \<and> (\<forall>m \<in> set rows. set (map fst m) = set columns \<and> distinct (map fst m))
     \<and> (distinct (map Stage_Name (table db)) \<longrightarrow>
          length rows = length (table db)
          \<and> (\<forall>i < length rows. rows ! i = row_items (table db ! i)
                \<and> (\<forall>c \<in> set columns. \<exists>v. map_of (rows ! i) c = Some v)
                \<and> (Height (table db ! i) = None \<longrightarrow> map_of (rows ! i) ''Height'' = Some PyNone)))"
proof -
  let ?rows = "map row_items (unique_instances (table db))"
  have run: "get_all_idols db = (Inr ?rows, record_statement Query_All db)"
    by (simp add: get_all_idols_def query_all_def to_dict_row_items cong: map_cong)
  have ok: "status (Inr ?rows) = 200"
    by (simp add: status_def)
  have none: "table db = [] \<longrightarrow> ?rows = []"
    by (simp add: unique_instances_Nil)
  have keys: "\<forall>m \<in> set ?rows. set (map fst m) = set columns \<and> distinct (map fst m)"
  proof
    fix m
    assume "m \<in> set ?rows"
    then obtain r where m: "m = row_items r" by auto
    show "set (map fst m) = set columns \<and> distinct (map fst m)"
      unfolding m keys_row_items using distinct_columns by blast
  qed
  have each: "length ?rows = length (table db)
      \<and> (\<forall>i < length ?rows. ?rows ! i = row_items (table db ! i)
            \<and> (\<forall>c \<in> set columns. \<exists>v. map_of (?rows ! i) c = Some v)
            \<and> (Height (table db ! i) = None \<longrightarrow> map_of (?rows ! i) ''Height'' = Some PyNone))"
    if d: "distinct (map Stage_Name (table db))"
  proof -
    from d have u: "unique_instances (table db) = table db"
      by (rule unique_instances_distinct)
    show ?thesis
      unfolding u by (simp add: row_items_has_column row_items_Height str_val_def)
  qed
  from run ok none keys each show ?thesis by blast
qed

theorem get_all_idols_total_witness:
  "distinct (map Stage_Name (table example_db))
   \<and> (\<exists>rows. get_all_idols example_db = (Inr rows, record_statement Query_All example_db)
         \<and> length rows = 3 \<and> set (map fst (rows ! 1)) = set columns
         \<and> rows ! 1 = row_items bora
         \<and> map_of (rows ! 1) ''Height'' = Some PyNone)"
proof -
  have d: "distinct (map Stage_Name (table example_db))"
    by (simp add: example_table example_names)
  have h: "Height (table example_db ! 1) = None"
    by (simp add: example_table bora_def blank_def)
  from get_all_idols_total [of example_db] d obtain rows where
    r: "get_all_idols example_db = (Inr rows, record_statement Query_All example_db)"
      "\<forall>m \<in> set rows. set (map fst m) = set columns \<and> distinct (map fst m)"
      "length rows = length (table example_db)"
      "\<forall>i < length rows. rows ! i = row_items (table example_db ! i)
          \<and> (\<forall>c \<in> set columns. \<exists>v. map_of (rows ! i) c = Some v)
          \<and> (Height (table example_db ! i) = None \<longrightarrow> map_of (rows ! i) ''Height'' = Some PyNone)"
    by blast
  from r(3) have l: "length rows = 3" by (simp add: example_table)
  then have i: "1 < length rows" by simp
  with r(4) have "rows ! 1 = row_items (table example_db ! 1)
      \<and> (Height (table example_db ! 1) = None \<longrightarrow> map_of (rows ! 1) ''Height'' = Some PyNone)"
    by blast
  with h have w: "rows ! 1 = row_items (table example_db ! 1)"
      "map_of (rows ! 1) ''Height'' = Some PyNone"
    by blast+
  have "table example_db ! 1 = bora" by (simp add: example_table)
  with w have v: "rows ! 1 = row_items bora" "map_of (rows ! 1) ''Height'' = Some PyNone"
    by (simp_all only:)
  from i have "rows ! 1 \<in> set rows" by (rule nth_mem)
  with r(2) have k: "set (map fst (rows ! 1)) = set columns" by blast
  from d r(1) l k v show ?thesis by blast
qed

text \<open>
  Three rows of which two share a stage name: the query gives two instances, and the
  one of the shared name is filled from the first of its rows.
\<close>

lemma get_all_idols_repeated_name:
  "fst (get_all_idols
      \<lparr>table = [(blank ''Twin'')\<lparr>Group := Some ''A''\<rparr>, (blank ''Twin'')\<lparr>Group := Some ''B''\<rparr>,
                blank ''Solo''],
       executed = []\<rparr>)
   = Inr [row_items ((blank ''Twin'')\<lparr>Group := Some ''A''\<rparr>), row_items (blank ''Solo'')]"
  by (simp add: get_all_idols_def query_all_def unique_instances_def to_dict_row_items
      blank_def)

text \<open>
  Claim C5. The stage name is the primary key, so no two rows of the table share it.
  Then \<open>get_idol_by_stage_name\<close> answers a stage name of the table with exactly one
  mapping, whose \<open>Stage_Name\<close> is the name asked for; it answers a stage name that is
  not in the table with 404 and the detail \<open>Idol not found.\<close>; and it raises in no
  other case.
\<close>

theorem get_idol_by_stage_name_spec:
  assumes "distinct (map Stage_Name (table db))"
  shows "(stage_name \<in> Stage_Name ` set (table db) \<longrightarrow>
            (\<exists>r. r \<in> set (table db) \<and> Stage_Name r = stage_name
               \<and> fst (get_idol_by_stage_name stage_name db) = Inr [row_items r]
               \<and> map_of (row_items r) ''Stage_Name'' = Some (PyStr stage_name)))
       \<and> (stage_name \<notin> Stage_Name ` set (table db) \<longrightarrow>
            fst (get_idol_by_stage_name stage_name db) = Inl (HTTPException 404 ''Idol not found.''))
       \<and> (\<forall>e. fst (get_idol_by_stage_name stage_name db) = Inl e \<longrightarrow>
            stage_name \<notin> Stage_Name ` set (table db))"
proof -
  let ?hit = "filter (\<lambda>r. Some (Stage_Name r) = Some stage_name) (table db)"
  have u: "unique_instances ?hit = ?hit"
    using assms by (rule unique_instances_filter)
  have absent: "stage_name \<notin> Stage_Name ` set (table db) \<Longrightarrow> ?hit = []"
    by (auto simp: filter_empty_conv)
  have present: "\<exists>r. r \<in> set (table db) \<and> Stage_Name r = stage_name \<and> ?hit = [r]"
    if "stage_name \<in> Stage_Name ` set (table db)"
  proof -
    from that obtain r where r: "r \<in> set (table db)" "Stage_Name r = stage_name" by auto
    from filter_key_unique [OF assms r(1)] r show ?thesis by auto
  qed
  have run: "fst (get_idol_by_stage_name stage_name db) =
      (if ?hit = [] then Inl (HTTPException 404 ''Idol not found.'')
       else Inr (map row_items ?hit))"
    unfolding get_idol_by_stage_name_def query_filter_eq_def u
    by (simp add: to_dict_row_items cong: map_cong)
  show ?thesis
  proof (cases "stage_name \<in> Stage_Name ` set (table db)")
    case True
    with present obtain r where
      r: "r \<in> set (table db)" "Stage_Name r = stage_name" "?hit = [r]" by blast
    from run r(3) have got: "fst (get_idol_by_stage_name stage_name db) = Inr [row_items r]"
      by simp
    from r(2) have "map_of (row_items r) ''Stage_Name'' = Some (PyStr stage_name)"
      by (simp add: row_items_Stage_Name)
    with True r got show ?thesis by auto
  next
    case False
    with absent have "?hit = []" by blast
    with run False show ?thesis by simp
  qed
qed

theorem get_idol_by_stage_name_spec_witness:
  "distinct (map Stage_Name (table example_db))
   \<and> (\<exists>r. Stage_Name r = ''Bora'' \<and> fst (get_idol_by_stage_name ''Bora'' example_db) = Inr [row_items r])
   \<and> fst (get_idol_by_stage_name ''Zed'' example_db) = Inl (HTTPException 404 ''Idol not found.'')"
proof -
  have d: "distinct (map Stage_Name (table example_db))"
    by (simp add: example_table example_names)
  have "''Bora'' \<in> Stage_Name ` set (table example_db)"
    by (simp add: example_table example_names)
  moreover have "''Zed'' \<notin> Stage_Name ` set (table example_db)"
    by (simp add: example_table example_names)
  ultimately show ?thesis
    using d get_idol_by_stage_name_spec [OF d, of "''Bora''"]
      get_idol_by_stage_name_spec [OF d, of "''Zed''"]
    by blast
qed

text \<open>
  Claim C6. \<open>get_idols_by_group\<close> answers the name of a group that some row of the
  table has with a list of mappings that is not empty, the mappings of the instances
  that the query gives for the rows of that group, each with the name asked for as its
  \<open>Group\<close>; on a table where no two rows share a stage name that is one mapping for
  each row of the group. It answers a name that no row has with 404 and the detail
  \<open>Group not found or has no members in the dataset.\<close>
\<close>

theorem get_idols_by_group_spec:
  "(Some group_name \<in> Group ` set (table db) \<longrightarrow>
      (\<exists>rows. fst (get_idols_by_group group_name db) = Inr rows \<and> rows \<noteq> []
         \<and> rows = map row_items
                    (unique_instances (filter (\<lambda>r. Group r = Some group_name) (table db)))
         \<and> (distinct (map Stage_Name (table db)) \<longrightarrow>
              rows = map row_items (filter (\<lambda>r. Group r = Some group_name) (table db)))
         \<and> (\<forall>m \<in> set rows. map_of m ''Group'' = Some (PyStr group_name))))
   \<and> (Some group_name \<notin> Group ` set (table db) \<longrightarrow>
        fst (get_idols_by_group group_name db) =
          Inl (HTTPException 404 ''Group not found or has no members in the dataset.''))"
proof -
  let ?hit = "filter (\<lambda>r. Group r = Some group_name) (table db)"
  let ?got = "unique_instances ?hit"
  have run: "fst (get_idols_by_group group_name db) =
      (if ?got = [] then
         Inl (HTTPException 404 ''Group not found or has no members in the dataset.'')
       else Inr (map row_items ?got))"
    by (simp add: get_idols_by_group_def query_filter_eq_def to_dict_row_items cong: map_cong)
  have empty: "?got = [] \<longleftrightarrow> Some group_name \<notin> Group ` set (table db)"
    unfolding unique_instances_Nil by (auto simp: filter_empty_conv image_iff)
  have "set ?got \<subseteq> set ?hit" by (rule unique_instances_subset)
  then have group: "\<forall>m \<in> set (map row_items ?got). map_of m ''Group'' = Some (PyStr group_name)"
    by (auto simp: row_items_Group str_val_def)
  have whole: "distinct (map Stage_Name (table db)) \<longrightarrow> map row_items ?got = map row_items ?hit"
    by (simp add: unique_instances_filter)
  show ?thesis
  proof (cases "Some group_name \<in> Group ` set (table db)")
    case True
    with empty have ne: "?got \<noteq> []" by blast
    with run have "fst (get_idols_by_group group_name db) = Inr (map row_items ?got)" by simp
    moreover from ne have "map row_items ?got \<noteq> []" by simp
    ultimately show ?thesis using True group whole by blast
  next
    case False
    with empty have "?got = []" by blast
    with run False show ?thesis by simp
  qed
qed

theorem get_idols_by_group_spec_witness:
  "Some ''Comet'' \<in> Group ` set (table example_db)
   \<and> distinct (map Stage_Name (table example_db))
   \<and> fst (get_idols_by_group ''Comet'' example_db) = Inr [row_items ara, row_items bora]
   \<and> Some ''Void'' \<notin> Group ` set (table example_db)
   \<and> fst (get_idols_by_group ''Void'' example_db) =
       Inl (HTTPException 404 ''Group not found or has no members in the dataset.'')"
proof -
  have a: "Some ''Comet'' \<in> Group ` set (table example_db)"
    by (simp add: example_table example_groups)
  have b: "Some ''Void'' \<notin> Group ` set (table example_db)"
    by (simp add: example_table example_groups)
  have d: "distinct (map Stage_Name (table example_db))"
    by (simp add: example_table example_names)
  have f: "filter (\<lambda>r. Group r = Some ''Comet'') (table example_db) = [ara, bora]"
    by (simp add: example_table example_groups)
  from get_idols_by_group_spec [of "''Comet''" example_db] a d f
  have "fst (get_idols_by_group ''Comet'' example_db) = Inr [row_items ara, row_items bora]"
    by auto
  moreover from get_idols_by_group_spec [of "''Void''" example_db] b
  have "fst (get_idols_by_group ''Void'' example_db) =
      Inl (HTTPException 404 ''Group not found or has no members in the dataset.'')"
    by blast
  ultimately show ?thesis using a b d by blast
qed

text \<open>
  Two rows of one group that share a stage name are one instance, filled from the
  first of them; asked for by that stage name, the answer is that one mapping.
\<close>

lemma repeated_name_one_instance:
  "fst (get_idols_by_group ''A''
      \<lparr>table = [(blank ''Twin'')\<lparr>Group := Some ''A'', age := Some 20\<rparr>,
                (blank ''Twin'')\<lparr>Group := Some ''A'', age := Some 30\<rparr>],
       executed = []\<rparr>)
   = Inr [row_items ((blank ''Twin'')\<lparr>Group := Some ''A'', age := Some 20\<rparr>)]"
  "fst (get_idol_by_stage_name ''Twin''
      \<lparr>table = [(blank ''Twin'')\<lparr>Group := Some ''A'', age := Some 20\<rparr>,
                (blank ''Twin'')\<lparr>Group := Some ''A'', age := Some 30\<rparr>],
       executed = []\<rparr>)
   = Inr [row_items ((blank ''Twin'')\<lparr>Group := Some ''A'', age := Some 20\<rparr>)]"
  by (simp_all add: get_idols_by_group_def get_idol_by_stage_name_def query_filter_eq_def
      unique_instances_def to_dict_row_items blank_def)

section \<open>The statement that \<open>filter_idols\<close> writes\<close>

lemma filter_query_eq:
  "filter_query gender country company debut_year age_from age_to =
    (filter_text (truthy_str gender) (truthy_str country) (truthy_str company)
       (truthy_int debut_year) (truthy_int age_from) (truthy_int age_to),
     filter_params gender country company debut_year age_from age_to)"
  by (simp add: filter_query_def filter_text_def filter_params_def Let_def)

lemma keys_filter_params:
  "map fst (filter_params gender country company debut_year age_from age_to) =
    filter_names (truthy_str gender) (truthy_str country) (truthy_str company)
      (truthy_int debut_year) (truthy_int age_from) (truthy_int age_to)"
  by (simp add: filter_params_def filter_names_def)

lemma starts_with_set: "starts_with needle hay \<Longrightarrow> set needle \<subseteq> set hay"
  by (induction needle hay rule: starts_with.induct) auto

lemma contains_set: "contains needle hay \<Longrightarrow> set needle \<subseteq> set hay"
proof (induction hay)
  case Nil
  then show ?case by simp
next
  case (Cons h hs)
  from Cons.prems have "starts_with needle (h # hs) \<or> contains needle hs" by simp
  then show ?case
  proof
    assume "starts_with needle (h # hs)"
    then show ?thesis by (rule starts_with_set)
  next
    assume "contains needle hs"
    with Cons.IH show ?thesis by auto
  qed
qed

lemma no_U_in_filter_text: "CHR ''U'' \<notin> set (filter_text g c co d af at)"
  by (simp add: filter_text_def)

text \<open>
  Claim C3. Whatever the six arguments of \<open>filter_idols\<close> are, the keys of the bound
  parameters are among the six names \<open>gender\<close>, \<open>country\<close>, \<open>company\<close>,
  \<open>debut_year\<close>, \<open>age_from\<close> and \<open>age_to\<close>, none of them is \<open>Height\<close> or \<open>Weight\<close>, the
  test of the last branch is false, and the clause that this branch would add does not
  occur in the text of the statement.
\<close>

theorem filter_or_clause_never_added:
  "set (map fst (snd (filter_query gender country company debut_year age_from age_to)))
     \<subseteq> {''gender'', ''country'', ''company'', ''debut_year'', ''age_from'', ''age_to''}
   \<and> ''Height'' \<notin> set (map fst (snd (filter_query gender country company debut_year age_from age_to)))
   \<and> ''Weight'' \<notin> set (map fst (snd (filter_query gender country company debut_year age_from age_to)))
   \<and> \<not> list_ex (\<lambda>field. field \<in> set [''Height'', ''Weight''])
         (map fst (snd (filter_query gender country company debut_year age_from age_to)))
   \<and> \<not> contains '' OR (`Height` IS NULL OR `Weight` IS NULL)''
         (fst (filter_query gender country company debut_year age_from age_to))"
proof -
  let ?q = "filter_query gender country company debut_year age_from age_to"
  have keys: "set (map fst (snd ?q))
      \<subseteq> {''gender'', ''country'', ''company'', ''debut_year'', ''age_from'', ''age_to''}"
    unfolding filter_query_eq snd_conv keys_filter_params
    by (auto simp: filter_names_def split: if_splits)
  then have hw: "''Height'' \<notin> set (map fst (snd ?q))" "''Weight'' \<notin> set (map fst (snd ?q))"
    by auto
  then have dead: "\<not> list_ex (\<lambda>field. field \<in> set [''Height'', ''Weight'']) (map fst (snd ?q))"
    unfolding list_ex_iff by (metis empty_iff empty_set set_ConsD)
  have "\<not> contains '' OR (`Height` IS NULL OR `Weight` IS NULL)'' (fst ?q)"
  proof
    assume "contains '' OR (`Height` IS NULL OR `Weight` IS NULL)'' (fst ?q)"
    then have "set '' OR (`Height` IS NULL OR `Weight` IS NULL)'' \<subseteq> set (fst ?q)"
      by (rule contains_set)
    then have "CHR ''U'' \<in> set (fst ?q)" by auto
    then show False by (simp add: filter_query_eq no_U_in_filter_text)
  qed
  with keys hw dead show ?thesis by blast
qed

theorem filter_or_clause_never_added_witness:
  "snd (filter_query (Some ''Girl'') None None (Some 2016) (Some 20) (Some 25)) =
     [(''gender'', PyStr ''%Girl%''), (''debut_year'', PyInt 2016), (''age_from'', PyInt 20),
      (''age_to'', PyInt 25)]
   \<and> \<not> contains '' OR (`Height` IS NULL OR `Weight` IS NULL)''
         (fst (filter_query (Some ''Girl'') None None (Some 2016) (Some 20) (Some 25)))"
  using filter_or_clause_never_added [of "Some ''Girl''" None None "Some 2016" "Some 20" "Some 25"]
  by (simp add: filter_query_eq filter_params_def truthy_str_def truthy_int_def)

text \<open>
  Claim C10. In \<open>filter_idols\<close> the number zero for \<open>debut_year\<close>, \<open>age_from\<close> or
  \<open>age_to\<close> and the empty string for \<open>gender\<close>, \<open>country\<close> or \<open>company\<close> do what
  \<open>None\<close> does: the same statement with the same parameters, and so the same answer.
\<close>

theorem filter_idols_falsy_is_absent:
  "filter_idols (Some []) country company debut_year age_from age_to db =
     filter_idols None country company debut_year age_from age_to db
   \<and> filter_idols gender (Some []) company debut_year age_from age_to db =
     filter_idols gender None company debut_year age_from age_to db
   \<and> filter_idols gender country (Some []) debut_year age_from age_to db =
     filter_idols gender country None debut_year age_from age_to db
   \<and> filter_idols gender country company (Some 0) age_from age_to db =
     filter_idols gender country company None age_from age_to db
   \<and> filter_idols gender country company debut_year (Some 0) age_to db =
     filter_idols gender country company debut_year None age_to db
   \<and> filter_idols gender country company debut_year age_from (Some 0) db =
     filter_idols gender country company debut_year age_from None db
   \<and> filter_query gender country company debut_year (Some 0) age_to =
     filter_query gender country company debut_year None age_to"
  by (simp add: filter_idols_def filter_query_eq filter_params_def truthy_str_def truthy_int_def)

theorem filter_idols_falsy_is_absent_witness:
  "filter_idols None None None None (Some 0) None example_db =
     filter_idols None None None None None None example_db
   \<and> fst (filter_query None None None None (Some 0) None) =
       ''SELECT * FROM kpop_idol_followers WHERE 1=1''"
  using filter_idols_falsy_is_absent
    [where gender = None and country = None and company = None and debut_year = None
       and age_from = None and age_to = None and db = example_db]
  by (simp add: filter_query_eq filter_text_def truthy_str_def truthy_int_def)

section \<open>How the database reads the statement of \<open>filter_idols\<close>\<close>

text \<open>
  The text of the statement is the fixed beginning followed by the clauses of the
  criteria that count. Every clause begins with a space and ends with the name of a
  bound parameter, so the tokenizer is idle again after the space that follows it, and
  the text can be read clause by clause.
\<close>

lemma lex_from_append:
  "lex_from m (a @ b) =
    (case lex_run m a of
       None \<Rightarrow> None
     | Some (ts, m') \<Rightarrow> (case lex_from m' b of None \<Rightarrow> None | Some ts' \<Rightarrow> Some (ts @ ts')))"
  by (induction a arbitrary: m) (auto split: option.splits)

lemma space_not_word: "\<not> is_word_char CHR '' ''" "\<not> is_digit CHR '' ''" "is_space CHR '' ''"
  by (simp_all add: is_word_char_def is_letter_def is_digit_def is_space_def)

lemma idle_step_space: "idle_step CHR '' '' = Some ([], Idle)"
  by (simp add: idle_step_def space_not_word)

lemma lex_from_bind_break:
  assumes "at_break rest" "w \<noteq> []"
  shows "lex_from (In_Bind w) rest =
    (case lex_from Idle rest of None \<Rightarrow> None | Some ts \<Rightarrow> Some (T_Bind w # ts))"
proof (cases rest)
  case Nil
  with assms show ?thesis by simp
next
  case (Cons c cs)
  with assms have "c = CHR '' ''" by (simp add: at_break_def)
  with Cons assms show ?thesis
    by (simp add: space_not_word emit_then_def idle_step_space split: option.splits)
qed

lemma lex_from_num_break:
  assumes "at_break rest"
  shows "lex_from (In_Num n) rest =
    (case lex_from Idle rest of None \<Rightarrow> None | Some ts \<Rightarrow> Some (T_Num n # ts))"
proof (cases rest)
  case Nil
  then show ?thesis by simp
next
  case (Cons c cs)
  with assms have "c = CHR '' ''" by (simp add: at_break_def)
  with Cons show ?thesis
    by (simp add: space_not_word emit_then_def idle_step_space split: option.splits)
qed

lemma lex_clause:
  assumes "lex_run Idle t = Some (ts, In_Bind w)" "w \<noteq> []" "at_break rest"
    "lex_from Idle rest = Some r"
  shows "lex_from Idle ((if b then t else []) @ rest) = Some ((if b then ts @ [T_Bind w] else []) @ r)"
  using assms by (simp add: lex_from_append lex_from_bind_break)

lemma at_break_clause:
  "at_break rest \<Longrightarrow> at_break ((if b then CHR '' '' # t else []) @ rest)"
  by (simp add: at_break_def)

lemma run_gender:
  "lex_run Idle '' AND `Gender_x` LIKE :gender'' =
     Some ([T_AND, T_Name ''Gender_x'', T_LIKE], In_Bind ''gender'')"
  by code_simp

lemma run_country:
  "lex_run Idle '' AND `Country` LIKE :country'' =
     Some ([T_AND, T_Name ''Country'', T_LIKE], In_Bind ''country'')"
  by code_simp

lemma run_company:
  "lex_run Idle '' AND `Company` LIKE :company'' =
     Some ([T_AND, T_Name ''Company'', T_LIKE], In_Bind ''company'')"
  by code_simp

lemma run_debut_year:
  "lex_run Idle '' AND YEAR(`Debut`) = :debut_year'' =
     Some ([T_AND, T_YEAR, T_LParen, T_Name ''Debut'', T_RParen, T_Eq], In_Bind ''debut_year'')"
  by code_simp

lemma run_age_from:
  "lex_run Idle '' AND `age` >= :age_from'' =
     Some ([T_AND, T_Name ''age'', T_Ge], In_Bind ''age_from'')"
  by code_simp

lemma run_age_to:
  "lex_run Idle '' AND `age` <= :age_to'' =
     Some ([T_AND, T_Name ''age'', T_Le], In_Bind ''age_to'')"
  by code_simp

lemma run_base:
  "lex_run Idle ''SELECT * FROM kpop_idol_followers WHERE 1=1'' =
     Some ([T_SELECT, T_Star, T_FROM, T_Name ''kpop_idol_followers'', T_WHERE, T_Num 1, T_Eq],
           In_Num 1)"
  by code_simp

lemma filter_text_pieces:
  "filter_text g c co d af at =
     ''SELECT * FROM kpop_idol_followers WHERE 1=1'' @
     (if g then '' AND `Gender_x` LIKE :gender'' else []) @
     (if c then '' AND `Country` LIKE :country'' else []) @
     (if co then '' AND `Company` LIKE :company'' else []) @
     (if d then '' AND YEAR(`Debut`) = :debut_year'' else []) @
     (if af then '' AND `age` >= :age_from'' else []) @
     (if at then '' AND `age` <= :age_to'' else []) @ []"
  by (simp only: filter_text_def append_Nil2)

lemma tokenize_filter_text:
  "tokenize (filter_text g c co d af at) = Some (filter_tokens g c co d af at)"
proof -
  let ?r6 = "(if at then '' AND `age` <= :age_to'' else []) @ []"
  let ?r5 = "(if af then '' AND `age` >= :age_from'' else []) @ ?r6"
  let ?r4 = "(if d then '' AND YEAR(`Debut`) = :debut_year'' else []) @ ?r5"
  let ?r3 = "(if co then '' AND `Company` LIKE :company'' else []) @ ?r4"
  let ?r2 = "(if c then '' AND `Country` LIKE :country'' else []) @ ?r3"
  let ?r1 = "(if g then '' AND `Gender_x` LIKE :gender'' else []) @ ?r2"
  let ?k6 = "(if at then [T_AND, T_Name ''age'', T_Le] @ [T_Bind ''age_to''] else []) @ []"
  let ?k5 = "(if af then [T_AND, T_Name ''age'', T_Ge] @ [T_Bind ''age_from''] else []) @ ?k6"
  let ?k4 = "(if d then [T_AND, T_YEAR, T_LParen, T_Name ''Debut'', T_RParen, T_Eq] @
                        [T_Bind ''debut_year''] else []) @ ?k5"
  let ?k3 = "(if co then [T_AND, T_Name ''Company'', T_LIKE] @ [T_Bind ''company''] else []) @ ?k4"
  let ?k2 = "(if c then [T_AND, T_Name ''Country'', T_LIKE] @ [T_Bind ''country''] else []) @ ?k3"
  let ?k1 = "(if g then [T_AND, T_Name ''Gender_x'', T_LIKE] @ [T_Bind ''gender''] else []) @ ?k2"
  have b7: "at_break []" by (simp add: at_break_def)
  have l7: "lex_from Idle [] = Some []" by simp
  have b6: "at_break ?r6" by (rule at_break_clause) (rule b7)
  have l6: "lex_from Idle ?r6 = Some ?k6" by (rule lex_clause [OF run_age_to _ b7 l7]) simp
  have b5: "at_break ?r5" by (rule at_break_clause) (rule b6)
  have l5: "lex_from Idle ?r5 = Some ?k5" by (rule lex_clause [OF run_age_from _ b6 l6]) simp
  have b4: "at_break ?r4" by (rule at_break_clause) (rule b5)
  have l4: "lex_from Idle ?r4 = Some ?k4" by (rule lex_clause [OF run_debut_year _ b5 l5]) simp
  have b3: "at_break ?r3" by (rule at_break_clause) (rule b4)
  have l3: "lex_from Idle ?r3 = Some ?k3" by (rule lex_clause [OF run_company _ b4 l4]) simp
  have b2: "at_break ?r2" by (rule at_break_clause) (rule b3)
  have l2: "lex_from Idle ?r2 = Some ?k2" by (rule lex_clause [OF run_country _ b3 l3]) simp
  have b1: "at_break ?r1" by (rule at_break_clause) (rule b2)
  have l1: "lex_from Idle ?r1 = Some ?k1" by (rule lex_clause [OF run_gender _ b2 l2]) simp
  have "tokenize (filter_text g c co d af at) =
      Some ([T_SELECT, T_Star, T_FROM, T_Name ''kpop_idol_followers'', T_WHERE, T_Num 1, T_Eq]
            @ T_Num 1 # ?k1)"
    unfolding tokenize_def filter_text_pieces
    by (subst lex_from_append)
       (simp only: run_base option.case prod.case lex_from_num_break [OF b1] l1)
  also have "[T_SELECT, T_Star, T_FROM, T_Name ''kpop_idol_followers'', T_WHERE, T_Num 1, T_Eq]
            @ T_Num 1 # ?k1 = filter_tokens g c co d af at"
    by (simp add: filter_tokens_def)
  finally show ?thesis .
qed

lemma parse_filter_tokens:
  "parse_statement (filter_tokens g c co d af at) = Some (filter_cond g c co d af at)"
  by (induct g; induct c; induct co; induct d; induct af; induct at) code_simp+

lemma parse_filter_text:
  "parse_sql (filter_text g c co d af at) = Some (filter_cond g c co d af at)"
  by (simp add: parse_sql_def tokenize_filter_text parse_filter_tokens)

text \<open>
  The names of the bound parameters are found in the same way: the end of a clause is
  the end of a name, and what follows begins with a space.
\<close>

lemma break_no_word: "at_break b \<Longrightarrow> takeWhile is_word_char b = [] \<and> dropWhile is_word_char b = b"
  by (cases b) (simp_all add: at_break_def space_not_word)

lemma bind_at_body:
  "r \<noteq> [] \<Longrightarrow>
   (if w = [] then None
    else if r @ b = [] then Some w
    else if hd (r @ b) \<noteq> CHR '':'' then Some w
    else if butlast w = [] then None
    else Some (butlast w)) =
   (if w = [] then None
    else if r = [] then Some w
    else if hd r \<noteq> CHR '':'' then Some w
    else if butlast w = [] then None
    else Some (butlast w))"
  by (simp add: hd_append)

lemma bind_at_append: "at_break b \<Longrightarrow> bind_at (cs @ b) = bind_at cs"
proof (cases "\<forall>x \<in> set cs. is_word_char x")
  case True
  assume b: "at_break b"
  from True have t: "takeWhile is_word_char (cs @ b) = cs" "dropWhile is_word_char (cs @ b) = b"
    "takeWhile is_word_char cs = cs" "dropWhile is_word_char cs = []"
    using break_no_word [OF b] by (simp_all add: takeWhile_append2 dropWhile_append2)
  show ?thesis
  proof (cases b)
    case Nil
    then show ?thesis by simp
  next
    case (Cons x xs)
    with b have "x = CHR '' ''" by (simp add: at_break_def)
    with Cons show ?thesis unfolding bind_at_def t Let_def by simp
  qed
next
  case False
  then obtain x where x: "x \<in> set cs" "\<not> is_word_char x" by blast
  then have t: "takeWhile is_word_char (cs @ b) = takeWhile is_word_char cs"
    "dropWhile is_word_char (cs @ b) = dropWhile is_word_char cs @ b"
    by (simp_all add: takeWhile_append1 dropWhile_append1)
  from False have d: "dropWhile is_word_char cs \<noteq> []"
    by (simp add: dropWhile_eq_Nil_conv)
  show ?thesis unfolding bind_at_def Let_def t by (rule bind_at_body [OF d])
qed

lemma bind_scan_append:
  "at_break b \<Longrightarrow>
   bind_scan prev (a @ b) = bind_scan prev a @ bind_scan (if a = [] then prev else Some (last a)) b"
  by (induction a arbitrary: prev) (simp_all add: bind_at_append)

lemma bind_scan_break: "at_break b \<Longrightarrow> bind_scan p b = bind_scan None b"
  by (cases b) (simp_all add: at_break_def)

lemma bind_clause:
  assumes "bind_scan None t = ns" "at_break rest" "bind_scan None rest = r"
  shows "bind_scan None ((if b then t else []) @ rest) = (if b then ns else []) @ r"
  using assms by (simp add: bind_scan_append bind_scan_break [of rest "Some _"])

lemma scan_gender: "bind_scan None '' AND `Gender_x` LIKE :gender'' = [''gender'']"
  by code_simp

lemma scan_country: "bind_scan None '' AND `Country` LIKE :country'' = [''country'']"
  by code_simp

lemma scan_company: "bind_scan None '' AND `Company` LIKE :company'' = [''company'']"
  by code_simp

lemma scan_debut_year: "bind_scan None '' AND YEAR(`Debut`) = :debut_year'' = [''debut_year'']"
  by code_simp

lemma scan_age_from: "bind_scan None '' AND `age` >= :age_from'' = [''age_from'']"
  by code_simp

lemma scan_age_to: "bind_scan None '' AND `age` <= :age_to'' = [''age_to'']"
  by code_simp

lemma scan_base: "bind_scan None ''SELECT * FROM kpop_idol_followers WHERE 1=1'' = []"
  by code_simp

lemma bind_names_filter_text:
  "bind_names (filter_text g c co d af at) = filter_names g c co d af at"
proof -
  let ?r6 = "(if at then '' AND `age` <= :age_to'' else []) @ []"
  let ?r5 = "(if af then '' AND `age` >= :age_from'' else []) @ ?r6"
  let ?r4 = "(if d then '' AND YEAR(`Debut`) = :debut_year'' else []) @ ?r5"
  let ?r3 = "(if co then '' AND `Company` LIKE :company'' else []) @ ?r4"
  let ?r2 = "(if c then '' AND `Country` LIKE :country'' else []) @ ?r3"
  let ?r1 = "(if g then '' AND `Gender_x` LIKE :gender'' else []) @ ?r2"
  let ?k6 = "(if at then [''age_to''] else []) @ []"
  let ?k5 = "(if af then [''age_from''] else []) @ ?k6"
  let ?k4 = "(if d then [''debut_year''] else []) @ ?k5"
  let ?k3 = "(if co then [''company''] else []) @ ?k4"
  let ?k2 = "(if c then [''country''] else []) @ ?k3"
  let ?k1 = "(if g then [''gender''] else []) @ ?k2"
  have b7: "at_break []" by (simp add: at_break_def)
  have l7: "bind_scan None [] = []" by simp
  have b6: "at_break ?r6" by (rule at_break_clause) (rule b7)
  have l6: "bind_scan None ?r6 = ?k6" by (rule bind_clause [OF scan_age_to b7 l7])
  have b5: "at_break ?r5" by (rule at_break_clause) (rule b6)
  have l5: "bind_scan None ?r5 = ?k5" by (rule bind_clause [OF scan_age_from b6 l6])
  have b4: "at_break ?r4" by (rule at_break_clause) (rule b5)
  have l4: "bind_scan None ?r4 = ?k4" by (rule bind_clause [OF scan_debut_year b5 l5])
  have b3: "at_break ?r3" by (rule at_break_clause) (rule b4)
  have l3: "bind_scan None ?r3 = ?k3" by (rule bind_clause [OF scan_company b4 l4])
  have b2: "at_break ?r2" by (rule at_break_clause) (rule b3)
  have l2: "bind_scan None ?r2 = ?k2" by (rule bind_clause [OF scan_country b3 l3])
  have b1: "at_break ?r1" by (rule at_break_clause) (rule b2)
  have l1: "bind_scan None ?r1 = ?k1" by (rule bind_clause [OF scan_gender b2 l2])
  have "bind_scan None (''SELECT * FROM kpop_idol_followers WHERE 1=1'' @ ?r1) =
      bind_scan None ''SELECT * FROM kpop_idol_followers WHERE 1=1'' @ bind_scan None ?r1"
    by (subst bind_scan_append [OF b1], subst bind_scan_break [OF b1]) (rule refl)
  then have "bind_names (filter_text g c co d af at) = [] @ ?k1"
    unfolding bind_names_def filter_text_pieces by (simp only: scan_base l1)
  also have "[] @ ?k1 = filter_names g c co d af at"
    by (simp add: filter_names_def)
  finally show ?thesis .
qed

section \<open>What \<open>filter_idols\<close> returns\<close>

text \<open>
  The condition read from the text is the conjunction of the clauses, and it is true of
  a row exactly when the row meets every criterion that counts.
\<close>

lemma and3_True: "and3 x y = Some True \<longleftrightarrow> x = Some True \<and> y = Some True"
  by (auto simp: and3_def)

lemma check_cond_foldl:
  "check_cond p (foldl C_And c cs) = (check_cond p c \<and> list_all (check_cond p) cs)"
  by (induction cs arbitrary: c) auto

lemma eval_cond_foldl:
  "eval_cond p r (foldl C_And c cs) = Some True \<longleftrightarrow>
     eval_cond p r c = Some True \<and> list_all (\<lambda>d. eval_cond p r d = Some True) cs"
  by (induction cs arbitrary: c) (auto simp: and3_True)

lemma params_lookup:
  "truthy_str gender \<Longrightarrow>
     map_of (filter_params gender country company debut_year age_from age_to) ''gender'' =
       Some (PyStr (''%'' @ the gender @ ''%''))"
  "truthy_str country \<Longrightarrow>
     map_of (filter_params gender country company debut_year age_from age_to) ''country'' =
       Some (PyStr (''%'' @ the country @ ''%''))"
  "truthy_str company \<Longrightarrow>
     map_of (filter_params gender country company debut_year age_from age_to) ''company'' =
       Some (PyStr (''%'' @ the company @ ''%''))"
  "truthy_int debut_year \<Longrightarrow>
     map_of (filter_params gender country company debut_year age_from age_to) ''debut_year'' =
       Some (PyInt (the debut_year))"
  "truthy_int age_from \<Longrightarrow>
     map_of (filter_params gender country company debut_year age_from age_to) ''age_from'' =
       Some (PyInt (the age_from))"
  "truthy_int age_to \<Longrightarrow>
     map_of (filter_params gender country company debut_year age_from age_to) ''age_to'' =
       Some (PyInt (the age_to))"
  by (simp_all add: filter_params_def)

lemma params_get:
  "truthy_str gender \<Longrightarrow>
     dict_get (filter_params gender country company debut_year age_from age_to) ''gender'' =
       PyStr (''%'' @ the gender @ ''%'')"
  "truthy_str country \<Longrightarrow>
     dict_get (filter_params gender country company debut_year age_from age_to) ''country'' =
       PyStr (''%'' @ the country @ ''%'')"
  "truthy_str company \<Longrightarrow>
     dict_get (filter_params gender country company debut_year age_from age_to) ''company'' =
       PyStr (''%'' @ the company @ ''%'')"
  "truthy_int debut_year \<Longrightarrow>
     dict_get (filter_params gender country company debut_year age_from age_to) ''debut_year'' =
       PyInt (the debut_year)"
  "truthy_int age_from \<Longrightarrow>
     dict_get (filter_params gender country company debut_year age_from age_to) ''age_from'' =
       PyInt (the age_from)"
  "truthy_int age_to \<Longrightarrow>
     dict_get (filter_params gender country company debut_year age_from age_to) ''age_to'' =
       PyInt (the age_to)"
  by (simp_all add: dict_get_def params_lookup)

lemma row_lookup:
  "dict_get (row_items r) ''Gender_x'' = str_val (Gender_x r)"
  "dict_get (row_items r) ''Country'' = str_val (Country r)"
  "dict_get (row_items r) ''Company'' = str_val (Company r)"
  "dict_get (row_items r) ''Debut'' = datetime_val (Debut r)"
  "dict_get (row_items r) ''age'' = int_val (age r)"
  by (simp_all add: dict_get_def row_items_def)

lemma column_type_lookup:
  "map_of column_types ''Gender_x'' = Some TString"
  "map_of column_types ''Country'' = Some TString"
  "map_of column_types ''Company'' = Some TString"
  "map_of column_types ''Debut'' = Some TDateTime"
  "map_of column_types ''age'' = Some TInteger"
  by (simp_all add: column_types_def)

lemma check_filter_cond:
  "check_cond (filter_params gender country company debut_year age_from age_to)
     (filter_cond (truthy_str gender) (truthy_str country) (truthy_str company)
        (truthy_int debut_year) (truthy_int age_from) (truthy_int age_to))"
  by (simp add: filter_cond_def filter_clauses_def check_cond_foldl operand_type_def
      column_type_lookup params_lookup)

lemma eval_like_clause:
  assumes "dict_get p b = PyStr (''%'' @ v @ ''%'')" "dict_get (row_items r) c = str_val col"
  shows "eval_cond p r (C_Like (O_Col c) (O_Bind b)) = Some True \<longleftrightarrow> column_like col v"
  using assms
  by (cases col) (simp_all add: eval_operand_def str_val_def as_text_def column_like_def)

lemma eval_filter_cond:
  "eval_cond (filter_params gender country company debut_year age_from age_to) r
     (filter_cond (truthy_str gender) (truthy_str country) (truthy_str company)
        (truthy_int debut_year) (truthy_int age_from) (truthy_int age_to)) = Some True
   \<longleftrightarrow> meets gender country company debut_year age_from age_to r"
proof -
  let ?p = "filter_params gender country company debut_year age_from age_to"
  have g: "truthy_str gender \<Longrightarrow>
      eval_cond ?p r (C_Like (O_Col ''Gender_x'') (O_Bind ''gender'')) = Some True
        \<longleftrightarrow> column_like (Gender_x r) (the gender)"
    by (rule eval_like_clause [OF params_get(1) row_lookup(1)])
  have c: "truthy_str country \<Longrightarrow>
      eval_cond ?p r (C_Like (O_Col ''Country'') (O_Bind ''country'')) = Some True
        \<longleftrightarrow> column_like (Country r) (the country)"
    by (rule eval_like_clause [OF params_get(2) row_lookup(2)])
  have co: "truthy_str company \<Longrightarrow>
      eval_cond ?p r (C_Like (O_Col ''Company'') (O_Bind ''company'')) = Some True
        \<longleftrightarrow> column_like (Company r) (the company)"
    by (rule eval_like_clause [OF params_get(3) row_lookup(3)])
  have d: "truthy_int debut_year \<Longrightarrow>
      eval_cond ?p r (C_Cmp Cmp_Eq (O_Year ''Debut'') (O_Bind ''debut_year'')) = Some True
        \<longleftrightarrow> debut_in (Debut r) (the debut_year)"
    by (cases "Debut r")
       (simp_all add: eval_operand_def row_lookup params_get datetime_val_def
         compare_int_def debut_in_def)
  have af: "truthy_int age_from \<Longrightarrow>
      eval_cond ?p r (C_Cmp Cmp_Ge (O_Col ''age'') (O_Bind ''age_from'')) = Some True
        \<longleftrightarrow> age_at_least (age r) (the age_from)"
    by (cases "age r")
       (simp_all add: eval_operand_def row_lookup params_get int_val_def
         compare_int_def age_at_least_def)
  have at: "truthy_int age_to \<Longrightarrow>
      eval_cond ?p r (C_Cmp Cmp_Le (O_Col ''age'') (O_Bind ''age_to'')) = Some True
        \<longleftrightarrow> age_at_most (age r) (the age_to)"
    by (cases "age r")
       (simp_all add: eval_operand_def row_lookup params_get int_val_def
         compare_int_def age_at_most_def)
  have base: "eval_cond ?p r (C_Cmp Cmp_Eq (O_Num 1) (O_Num 1)) = Some True"
    by (simp add: eval_operand_def compare_int_def)
  show ?thesis
    unfolding filter_cond_def eval_cond_foldl filter_clauses_def meets_def
    using g c co d af at base by simp
qed

text \<open>
  So the database answers the statement of \<open>filter_idols\<close> with the rows that meet
  the criteria, and \<open>filter_idols\<close> raises 404 when there is none.
\<close>

lemma db_execute_filter:
  "fst (db_execute
      (filter_text (truthy_str gender) (truthy_str country) (truthy_str company)
         (truthy_int debut_year) (truthy_int age_from) (truthy_int age_to))
      (filter_params gender country company debut_year age_from age_to) db) =
    Inr (map row_items (filter (meets gender country company debut_year age_from age_to) (table db)))"
proof -
  let ?p = "filter_params gender country company debut_year age_from age_to"
  let ?ns = "filter_names (truthy_str gender) (truthy_str country) (truthy_str company)
         (truthy_int debut_year) (truthy_int age_from) (truthy_int age_to)"
  have "list_all (\<lambda>n. n \<in> set ?ns) ?ns" by (simp add: list_all_iff)
  then show ?thesis
    by (simp add: db_execute_def Let_def bind_names_filter_text keys_filter_params
        parse_filter_text check_filter_cond eval_filter_cond)
qed

lemma filter_idols_rows:
  "fst (filter_idols gender country company debut_year age_from age_to db) =
    (if filter (meets gender country company debut_year age_from age_to) (table db) = [] then
       Inl (HTTPException 404 ''No idols found matching the filter criteria.'')
     else Inr (map row_items
            (filter (meets gender country company debut_year age_from age_to) (table db))))"
proof -
  let ?x = "db_execute
      (filter_text (truthy_str gender) (truthy_str country) (truthy_str company)
         (truthy_int debut_year) (truthy_int age_from) (truthy_int age_to))
      (filter_params gender country company debut_year age_from age_to) db"
  obtain res db' where x: "?x = (res, db')" by (cases ?x)
  with db_execute_filter [of gender country company debut_year age_from age_to db]
  have "res = Inr (map row_items
      (filter (meets gender country company debut_year age_from age_to) (table db)))"
    by simp
  with x show ?thesis
    by (simp add: filter_idols_def filter_query_eq)
qed

text \<open>
  A value with no wildcard and no backslash, between two percent signs, matches the
  texts in which it occurs.
\<close>

lemma like_any: "like_match ''%'' s"
  by (induction s) auto

lemma like_prefix:
  "plain v \<Longrightarrow> like_match (v @ ''%'') s = starts_with v s"
proof (induction v arbitrary: s)
  case Nil
  then show ?case by (simp add: like_any)
next
  case (Cons p ps)
  then show ?case by (cases s) (auto simp: plain_def)
qed

lemma like_plain: "plain v \<Longrightarrow> like_match (''%'' @ v @ ''%'') s = contains v s"
proof (induction s)
  case Nil
  then show ?case using like_prefix [of v "[]"] by (cases v) auto
next
  case (Cons c cs)
  then show ?case using like_prefix [of v "c # cs"] by simp
qed

lemma meets_nothing: "meets None None None None None None r"
  by (simp add: meets_def truthy_str_def truthy_int_def)

text \<open>
  Claim C2, amended. With no criterion, \<open>filter_idols\<close> answers a table that is not
  empty with status 200 and one mapping for each of its rows, and the empty table with
  404: the check of the result for emptiness is the same with or without criteria.
\<close>

theorem filter_idols_no_criteria:
  "(table db \<noteq> [] \<longrightarrow>
      fst (filter_idols None None None None None None db) = Inr (map row_items (table db))
      \<and> status (fst (filter_idols None None None None None None db)) = 200
      \<and> length (map row_items (table db)) = length (table db))
   \<and> (table db = [] \<longrightarrow>
      fst (filter_idols None None None None None None db) =
        Inl (HTTPException 404 ''No idols found matching the filter criteria.''))"
  by (simp add: filter_idols_rows meets_nothing status_def)

theorem filter_idols_no_criteria_witness:
  "table example_db \<noteq> []
   \<and> fst (filter_idols None None None None None None example_db) =
       Inr [row_items ara, row_items bora, row_items chan]
   \<and> status (fst (filter_idols None None None None None None example_db)) = 200"
  using filter_idols_no_criteria [of example_db] by (simp add: example_table status_def)

text \<open>
  Claim C2 as stated fails on the empty table: the status is 404, not 200.
\<close>

theorem filter_idols_empty_table_counterexample:
  "\<not> (status (fst (filter_idols None None None None None None empty_db)) = 200)
   \<and> fst (filter_idols None None None None None None empty_db) =
       Inl (HTTPException 404 ''No idols found matching the filter criteria.'')"
  by (simp add: filter_idols_rows empty_db_def status_def)

text \<open>
  Claim C4, amended. The mappings that \<open>filter_idols\<close> returns are those of the rows
  that meet every criterion given with a value that is neither empty nor zero. For
  such a row the columns \<open>Gender_x\<close>, \<open>Country\<close> and \<open>Company\<close> are not NULL and match
  the pattern made of the value between two percent signs, which says that the value
  occurs in the column when the value has no percent sign, underscore or backslash;
  the year of \<open>Debut\<close> is \<open>debut_year\<close>; and \<open>age\<close> is at least \<open>age_from\<close> and at
  most \<open>age_to\<close>.
\<close>

theorem filter_idols_conjunction:
  assumes "fst (filter_idols gender country company debut_year age_from age_to db) = Inr rows"
    and "m \<in> set rows"
  shows "rows = map row_items
            (filter (meets gender country company debut_year age_from age_to) (table db))
    \<and> (\<exists>r \<in> set (table db). m = row_items r
       \<and> (\<forall>g. gender = Some g \<and> g \<noteq> [] \<longrightarrow>
             (\<exists>s. Gender_x r = Some s \<and> like_match (''%'' @ g @ ''%'') s
                  \<and> (plain g \<longrightarrow> contains g s)))
       \<and> (\<forall>c. country = Some c \<and> c \<noteq> [] \<longrightarrow>
             (\<exists>s. Country r = Some s \<and> like_match (''%'' @ c @ ''%'') s
                  \<and> (plain c \<longrightarrow> contains c s)))
       \<and> (\<forall>c. company = Some c \<and> c \<noteq> [] \<longrightarrow>
             (\<exists>s. Company r = Some s \<and> like_match (''%'' @ c @ ''%'') s
                  \<and> (plain c \<longrightarrow> contains c s)))
       \<and> (\<forall>y. debut_year = Some y \<and> y \<noteq> 0 \<longrightarrow> (\<exists>d. Debut r = Some d \<and> year d = y))
       \<and> (\<forall>n. age_from = Some n \<and> n \<noteq> 0 \<longrightarrow> (\<exists>a. age r = Some a \<and> n \<le> a))
       \<and> (\<forall>n. age_to = Some n \<and> n \<noteq> 0 \<longrightarrow> (\<exists>a. age r = Some a \<and> a \<le> n)))"
proof -
  let ?hit = "filter (meets gender country company debut_year age_from age_to) (table db)"
  from assms(1) have rows: "rows = map row_items ?hit"
    by (simp add: filter_idols_rows split: if_splits)
  with assms(2) obtain r where r: "r \<in> set (table db)" "m = row_items r"
    and "meets gender country company debut_year age_from age_to r"
    by auto
  then have ms:
    "truthy_str gender \<Longrightarrow> column_like (Gender_x r) (the gender)"
    "truthy_str country \<Longrightarrow> column_like (Country r) (the country)"
    "truthy_str company \<Longrightarrow> column_like (Company r) (the company)"
    "truthy_int debut_year \<Longrightarrow> debut_in (Debut r) (the debut_year)"
    "truthy_int age_from \<Longrightarrow> age_at_least (age r) (the age_from)"
    "truthy_int age_to \<Longrightarrow> age_at_most (age r) (the age_to)"
    unfolding meets_def by (simp_all split: if_splits)
  have like: "\<exists>s. col = Some s \<and> like_match (''%'' @ v @ ''%'') s \<and> (plain v \<longrightarrow> contains v s)"
    if "column_like col v" for col v
    using that like_plain [of v] by (cases col) (auto simp: column_like_def)
  have g: "\<forall>g. gender = Some g \<and> g \<noteq> [] \<longrightarrow>
      (\<exists>s. Gender_x r = Some s \<and> like_match (''%'' @ g @ ''%'') s \<and> (plain g \<longrightarrow> contains g s))"
  proof (intro allI impI)
    fix g assume "gender = Some g \<and> g \<noteq> []"
    with ms(1) have "column_like (Gender_x r) g" by (simp add: truthy_str_def)
    then show "\<exists>s. Gender_x r = Some s \<and> like_match (''%'' @ g @ ''%'') s
        \<and> (plain g \<longrightarrow> contains g s)"
      by (rule like)
  qed
  have c: "\<forall>c. country = Some c \<and> c \<noteq> [] \<longrightarrow>
      (\<exists>s. Country r = Some s \<and> like_match (''%'' @ c @ ''%'') s \<and> (plain c \<longrightarrow> contains c s))"
  proof (intro allI impI)
    fix c assume "country = Some c \<and> c \<noteq> []"
    with ms(2) have "column_like (Country r) c" by (simp add: truthy_str_def)
    then show "\<exists>s. Country r = Some s \<and> like_match (''%'' @ c @ ''%'') s
        \<and> (plain c \<longrightarrow> contains c s)"
      by (rule like)
  qed
  have co: "\<forall>c. company = Some c \<and> c \<noteq> [] \<longrightarrow>
      (\<exists>s. Company r = Some s \<and> like_match (''%'' @ c @ ''%'') s \<and> (plain c \<longrightarrow> contains c s))"
  proof (intro allI impI)
    fix c assume "company = Some c \<and> c \<noteq> []"
    with ms(3) have "column_like (Company r) c" by (simp add: truthy_str_def)
    then show "\<exists>s. Company r = Some s \<and> like_match (''%'' @ c @ ''%'') s
        \<and> (plain c \<longrightarrow> contains c s)"
      by (rule like)
  qed
  have d: "\<forall>y. debut_year = Some y \<and> y \<noteq> 0 \<longrightarrow> (\<exists>d. Debut r = Some d \<and> year d = y)"
  proof (intro allI impI)
    fix y assume "debut_year = Some y \<and> y \<noteq> 0"
    with ms(4) have "debut_in (Debut r) y" by (simp add: truthy_int_def)
    then show "\<exists>d. Debut r = Some d \<and> year d = y"
      by (cases "Debut r") (simp_all add: debut_in_def)
  qed
  have af: "\<forall>n. age_from = Some n \<and> n \<noteq> 0 \<longrightarrow> (\<exists>a. age r = Some a \<and> n \<le> a)"
  proof (intro allI impI)
    fix n assume "age_from = Some n \<and> n \<noteq> 0"
    with ms(5) have "age_at_least (age r) n" by (simp add: truthy_int_def)
    then show "\<exists>a. age r = Some a \<and> n \<le> a"
      by (cases "age r") (simp_all add: age_at_least_def)
  qed
  have at: "\<forall>n. age_to = Some n \<and> n \<noteq> 0 \<longrightarrow> (\<exists>a. age r = Some a \<and> a \<le> n)"
  proof (intro allI impI)
    fix n assume "age_to = Some n \<and> n \<noteq> 0"
    with ms(6) have "age_at_most (age r) n" by (simp add: truthy_int_def)
    then show "\<exists>a. age r = Some a \<and> a \<le> n"
      by (cases "age r") (simp_all add: age_at_most_def)
  qed
  show ?thesis
    using rows r g c co d af at by (intro conjI bexI [of _ r]) assumption+
qed

lemma example_rows:
  "Gender_x ara = Some ''Girl''" "Debut ara = Some (midnight 2016 8 8)" "age ara = Some 24"
  "Gender_x bora = Some ''Girl''" "Debut bora = Some (midnight 2016 8 8)" "age bora = Some 27"
  "Gender_x chan = Some ''Boy''" "Debut chan = Some (midnight 2013 6 13)" "age chan = Some 21"
  by (simp_all add: ara_def bora_def chan_def blank_def)

theorem filter_idols_conjunction_witness:
  "fst (filter_idols (Some ''irl'') None None (Some 2016) (Some 20) (Some 25) example_db) =
     Inr [row_items ara]
   \<and> row_items ara \<in> set [row_items ara]
   \<and> [row_items ara] = map row_items
       (filter (meets (Some ''irl'') None None (Some 2016) (Some 20) (Some 25)) (table example_db))"
proof -
  have f: "fst (filter_idols (Some ''irl'') None None (Some 2016) (Some 20) (Some 25) example_db) =
     Inr [row_items ara]"
    by code_simp
  have m: "row_items ara \<in> set [row_items ara]" by simp
  from filter_idols_conjunction [OF f m] have "[row_items ara] = map row_items
       (filter (meets (Some ''irl'') None None (Some 2016) (Some 20) (Some 25)) (table example_db))"
    by (rule conjunct1)
  with f m show ?thesis by (intro conjI)
qed

text \<open>
  Claim C4 as stated fails on \<open>age_to\<close> zero, which is given and does not bound the
  age: every row is returned, one of age 24 among them. It also fails on the gender
  \<open>_\<close>, a wildcard of \<open>LIKE\<close>: the row of gender \<open>Boy\<close> is returned, and the
  underscore does not occur in \<open>Boy\<close>.
\<close>

theorem filter_idols_zero_counterexample:
  "fst (filter_idols None None None None None (Some 0) example_db) =
     Inr [row_items ara, row_items bora, row_items chan]
   \<and> age ara = Some 24 \<and> \<not> age_at_most (age ara) 0
   \<and> fst (filter_idols (Some ''_'') None None None None None example_db) =
     Inr [row_items ara, row_items bora, row_items chan]
   \<and> Gender_x chan = Some ''Boy'' \<and> \<not> contains ''_'' ''Boy''"
  by code_simp

section \<open>Properties of \<open>search_idols\<close>\<close>

lemma db_execute_session:
  "snd (db_execute query_str params db) = record_statement (Text_Statement query_str params) db"
  by (simp add: db_execute_def Let_def split: option.splits)

lemma db_execute_cases:
  "fst (db_execute query_str params db) = Inl DatabaseError
   \<or> (\<exists>rows. fst (db_execute query_str params db) = Inr rows)"
  by (simp add: db_execute_def Let_def split: option.splits)

text \<open>
  With a field and a value that pass the two checks, \<open>search_idols\<close> executes one
  statement: the text \<open>search_text\<close>, written with both of them inside, and no bound
  parameter.
\<close>

lemma search_idols_valid:
  assumes "truthy_str field" "truthy_str value" "the field \<in> set columns"
  shows "search_idols field value db =
    ((case fst (db_execute (search_text (the field) (the value)) [] db) of
        Inl e \<Rightarrow> Inl e
      | Inr rows \<Rightarrow>
          if rows = [] then Inl (HTTPException 404 ''No idols found matching the search criteria.'')
          else Inr rows),
     record_statement (Text_Statement (search_text (the field) (the value)) []) db)"
proof -
  let ?q = "search_text (the field) (the value)"
  let ?x = "db_execute ?q [] db"
  have x: "?x = (fst ?x, record_statement (Text_Statement ?q []) db)"
    by (metis db_execute_session prod.collapse)
  have q: "(if the field \<in> set [''Height'', ''Weight''] then
       ''SELECT * FROM kpop_idol_followers WHERE `'' @ the field @ ''` LIKE '%'' @ the value @ ''%' OR `'' @ the field @
       ''` IS NULL''
     else
       ''SELECT * FROM kpop_idol_followers WHERE `'' @ the field @ ''` LIKE '%'' @ the value @ ''%'' @ [quote]) = ?q"
    by (simp only: search_text_def)
  have "search_idols field value db =
     (let (result, db') = ?x
      in case result of
           Inl e \<Rightarrow> (Inl e, db')
         | Inr rows \<Rightarrow>
             if rows = [] then
               (Inl (HTTPException 404 ''No idols found matching the search criteria.''), db')
             else (Inr rows, db'))"
    unfolding search_idols_def Let_def q using assms by (simp only: simp_thms if_False if_True)
  also have "\<dots> = ((case fst ?x of
        Inl e \<Rightarrow> Inl e
      | Inr rows \<Rightarrow>
          if rows = [] then Inl (HTTPException 404 ''No idols found matching the search criteria.'')
          else Inr rows),
     record_statement (Text_Statement ?q []) db)"
    by (subst x) (simp only: Let_def prod.case split: sum.split, simp)
  finally show ?thesis .
qed


lemma starts_with_append: "starts_with needle (needle @ rest)"
  by (induction needle) auto

lemma contains_append: "contains needle (before @ needle @ rest)"
proof (induction before)
  case Nil
  show ?case
    by (cases "needle @ rest") (use starts_with_append [of needle rest] in auto)
next
  case (Cons b bs)
  then show ?case by simp
qed

text \<open>The value is in the text of the statement, whatever it is.\<close>

lemma search_text_contains_value: "contains v (search_text f v)"
proof -
  let ?before = "''SELECT * FROM kpop_idol_followers WHERE `'' @ f @ ''` LIKE '%''"
  let ?rest = "if f \<in> set [''Height'', ''Weight''] then ''%' OR `'' @ f @ ''` IS NULL''
               else ''%'' @ [quote]"
  have "search_text f v = ?before @ v @ ?rest"
    by (simp add: search_text_def)
  then show ?thesis by (simp only: contains_append)
qed

lemma example_countries:
  "Country ara = Some ''South Korea''" "Country bora = Some ''Thailand''" "Country chan = None"
  by (simp_all add: ara_def bora_def chan_def blank_def)

text \<open>
  Claim C1, on the field \<open>Country\<close> and the value \<open>Korea\<close>. The claim has the value
  passed as a bound parameter and absent from the text. The statement that
  \<open>search_idols\<close> executes has no bound parameter, and the value stands in its text,
  between the quotes of a string literal, as the field stands between its backticks.
\<close>

theorem search_value_in_statement_text:
  "snd (search_idols (Some ''Country'') (Some ''Korea'') example_db) =
     record_statement
       (Text_Statement (''SELECT * FROM kpop_idol_followers WHERE `Country` LIKE '%Korea%'' @ [quote]) [])
       example_db
   \<and> contains ''Korea'' (''SELECT * FROM kpop_idol_followers WHERE `Country` LIKE '%Korea%'' @ [quote])
   \<and> fst (search_idols (Some ''Country'') (Some ''Korea'') example_db) = Inr [row_items ara]"
  by code_simp

theorem search_value_in_statement_text_witness:
  "executed (snd (search_idols (Some ''Country'') (Some ''Korea'') example_db)) =
     [Text_Statement (''SELECT * FROM kpop_idol_followers WHERE `Country` LIKE '%Korea%'' @ [quote]) []]"
  using search_value_in_statement_text by (simp add: record_statement_def example_db_def)

text \<open>
  Claim C8, on two values with a quote. The claim has a row whose column is NULL left
  out when the field is not \<open>Height\<close> or \<open>Weight\<close>, and kept when it is, for every
  value. A value is written into the text as it is, so a quote in it ends the string
  literal: searching \<open>Country\<close> for a value that goes on with \<open>OR\<close> and a second
  predicate returns the row \<open>chan\<close>, whose country is NULL, and searching \<open>Height\<close>
  for five feet seven, written with a quote, is a statement that the database cannot
  parse, so that the row \<open>bora\<close>, whose height is NULL, is not returned.
\<close>

theorem search_quote_in_value:
  "fst (search_idols (Some ''Country'') (Some (quote # '' OR `Stage_Name` LIKE '' @ [quote])) example_db)
     = Inr [row_items ara, row_items bora, row_items chan]
   \<and> Country chan = None
   \<and> fst (search_idols (Some ''Height'') (Some ''5'7'') example_db) = Inl DatabaseError
   \<and> Height bora = None"
  by code_simp

theorem search_quote_in_value_witness:
  "fst (search_idols (Some ''Height'') (Some ''5'7'') example_db) = Inl DatabaseError
   \<and> status (fst (search_idols (Some ''Height'') (Some ''5'7'') example_db)) = 500"
  using search_quote_in_value by (simp add: status_def)


lemma truthy_str_iff: "truthy_str v \<longleftrightarrow> (\<exists>s. v = Some s \<and> s \<noteq> [])"
  by (cases v) (simp_all add: truthy_str_def)

lemma search_idols_missing:
  "\<not> truthy_str field \<or> \<not> truthy_str value \<Longrightarrow>
   search_idols field value db =
     (Inl (HTTPException 400 ''Both 'field' and 'value' are required.''), db)"
  by (simp only: search_idols_def simp_thms if_True)

lemma search_idols_unknown_field:
  "truthy_str field \<Longrightarrow> truthy_str value \<Longrightarrow> the field \<notin> set columns \<Longrightarrow>
   search_idols field value db =
     (Inl (HTTPException 400 (''Field '' @ quote # the field @ quote # '' not found in the data.'')), db)"
  by (simp only: search_idols_def Let_def simp_thms if_True if_False)

lemma search_idols_valid_status:
  assumes "truthy_str field" "truthy_str value" "the field \<in> set columns"
  shows "status (fst (search_idols field value db)) \<noteq> 400"
proof -
  let ?x = "fst (db_execute (search_text (the field) (the value)) [] db)"
  from db_execute_cases [of "search_text (the field) (the value)" "[]" db]
  have "?x = Inl DatabaseError \<or> (\<exists>rows. ?x = Inr rows)" .
  then show ?thesis
    unfolding search_idols_valid [OF assms] fst_conv
    by (auto simp: status_def split: if_splits)
qed

text \<open>
  Claim C7, amended. \<open>search_idols\<close> answers with status 400 exactly when the field or
  the value is missing or empty, or the field is not a declared column. When the field
  or the value is missing or empty the detail says that both are required; when both
  are there and the field is not a declared column the detail names the field. In both
  cases the session is returned as it was: no statement is executed.
\<close>

theorem search_idols_bad_request:
  "(status (fst (search_idols field value db)) = 400 \<longleftrightarrow>
      (field = None \<or> field = Some [] \<or> value = None \<or> value = Some []
       \<or> (\<exists>f. field = Some f \<and> f \<notin> set columns)))
   \<and> (field = None \<or> field = Some [] \<or> value = None \<or> value = Some [] \<longrightarrow>
        search_idols field value db =
          (Inl (HTTPException 400 ''Both 'field' and 'value' are required.''), db))
   \<and> (\<forall>f v. field = Some f \<and> f \<noteq> [] \<and> value = Some v \<and> v \<noteq> [] \<and> f \<notin> set columns \<longrightarrow>
        search_idols field value db =
          (Inl (HTTPException 400 (''Field '' @ quote # f @ quote # '' not found in the data.'')), db))"
proof -
  have missing: "\<not> truthy_str field \<or> \<not> truthy_str value \<longleftrightarrow>
      field = None \<or> field = Some [] \<or> value = None \<or> value = Some []"
    by (cases field; cases "value") (auto simp: truthy_str_def)
  show ?thesis
  proof (cases "\<not> truthy_str field \<or> \<not> truthy_str value")
    case True
    from search_idols_missing [OF True, of db] True missing show ?thesis
      by (auto simp: status_def)
  next
    case False
    then have t: "truthy_str field" "truthy_str value" by auto
    then obtain f v where fv: "field = Some f" "f \<noteq> []" "value = Some v" "v \<noteq> []"
      by (auto simp: truthy_str_iff)
    show ?thesis
    proof (cases "f \<in> set columns")
      case True
      with fv have "the field \<in> set columns" by simp
      from search_idols_valid_status [OF t this, of db] fv True show ?thesis by auto
    next
      case False
      with fv have "the field \<notin> set columns" by simp
      from search_idols_unknown_field [OF t this, of db] fv False show ?thesis
        by (auto simp: status_def)
    qed
  qed
qed

theorem search_idols_bad_request_witness:
  "search_idols (Some ''Nope'') (Some ''x'') example_db =
     (Inl (HTTPException 400 ''Field 'Nope' not found in the data.''), example_db)
   \<and> status (fst (search_idols (Some ''Country'') (Some ''Korea'') example_db)) \<noteq> 400
   \<and> search_idols None (Some ''x'') example_db =
     (Inl (HTTPException 400 ''Both 'field' and 'value' are required.''), example_db)"
proof -
  have n: "''Nope'' \<notin> set columns" "''Country'' \<in> set columns"
    by (simp_all add: columns_def)
  have q: "''Field '' @ quote # ''Nope'' @ quote # '' not found in the data.''
      = ''Field 'Nope' not found in the data.''"
    by (simp add: quote_def)
  from search_idols_bad_request [of "Some ''Nope''" "Some ''x''" example_db]
    search_idols_bad_request [of "Some ''Country''" "Some ''Korea''" example_db]
    search_idols_bad_request [of None "Some ''x''" example_db]
    n q
  show ?thesis by auto
qed

text \<open>
  Claim C7 as stated fails on an empty value: the field \<open>Country\<close> is a declared
  column and both parameters are there, and the status is 400.
\<close>

theorem search_idols_empty_value_counterexample:
  "\<not> (status (fst (search_idols (Some ''Country'') (Some []) example_db)) = 400 \<longleftrightarrow>
       ((Some ''Country'' :: string option) = None \<or> (Some [] :: string option) = None
        \<or> ''Country'' \<notin> set columns))"
  by (simp add: search_idols_def truthy_str_def status_def columns_def)

end
